theory Spec2Isabelle
  imports Main "HOL-Library.Word"
begin

section \<open>Values of the JavaScript runtime\<close>

text \<open>
  The repository is a Next.js webhook handler (TypeScript) that drives the Daytona sandbox
  SDK.  Strings are modelled as \<^typ>\<open>string\<close> holding the UTF-8 encoding of the JavaScript
  text, so \<open>Buffer.from(s)\<close> is the string itself and its byte length is \<^const>\<open>length\<close>.
  Numbers are \<^typ>\<open>int\<close> (the code only handles integers: issue numbers, ports, exit
  codes, time stamps).  Everything thrown is a value of \<open>error\<close>; a function that can throw
  returns \<open>error + 'a\<close> with \<open>Inl\<close> for the exception.
\<close>

datatype error =
    Error string
  | TypeError string
  | RangeError string
  | SyntaxError string
  | Thrown string

text \<open>\<open>error instanceof Error ? error.message : 'Unknown error'\<close>; \<open>Thrown\<close> is a thrown
  value that is not an \<open>Error\<close> object.\<close>

fun error_message :: "error \<Rightarrow> string" where
  "error_message (Error m) = m"
| "error_message (TypeError m) = m"
| "error_message (RangeError m) = m"
| "error_message (SyntaxError m) = m"
| "error_message (Thrown v) = ''Unknown error''"

datatype json =
    JNull
  | JBool bool
  | JNumber int
  | JString string
  | JArray "json list"
  | JObject "(string \<times> json) list"

text \<open>A field that JSON may leave out (\<open>undefined\<close>) or set to \<open>null\<close>.\<close>

datatype 'a js_field = Undefined | Null | Value 'a

text \<open>An optional string of \<open>process.env\<close> or of a header is falsy when it is absent or
  empty.\<close>

fun truthy :: "string option \<Rightarrow> bool" where
  "truthy None = False"
| "truthy (Some s) = (s \<noteq> [])"

text \<open>Names for the strings the client passes around.\<close>

type_synonym sandbox_ref = string
type_synonym repo_name = string
type_synonym branch = string
type_synonym url = string
type_synonym token = string

subsection \<open>Number to string\<close>

definition digit_char :: "int \<Rightarrow> char" where
  "digit_char d = ''0123456789'' ! nat d"

function show_digits :: "int \<Rightarrow> string" where
  "show_digits n =
     (if n < 10 then [digit_char n] else show_digits (n div 10) @ [digit_char (n mod 10)])"
  by pat_completeness auto
termination
  by (relation "measure nat") auto

declare show_digits.simps [simp del]

text \<open>\<open>String(n)\<close>, \<open>n.toString()\<close> and \<open>${n}\<close> for an integer \<open>n\<close>.\<close>

definition show_int :: "int \<Rightarrow> string" where
  "show_int i = (if i < 0 then CHR ''-'' # show_digits (- i) else show_digits i)"

subsection \<open>String methods\<close>

text \<open>\<open>s.includes(pat)\<close>.\<close>

fun startsWith :: "string \<Rightarrow> string \<Rightarrow> bool" where
  "startsWith [] s = True"
| "startsWith (p # ps) [] = False"
| "startsWith (p # ps) (c # cs) = (p = c \<and> startsWith ps cs)"

fun includes_str :: "string \<Rightarrow> string \<Rightarrow> bool" where
  "includes_str pat [] = (pat = [])"
| "includes_str pat (c # cs) = (startsWith pat (c # cs) \<or> includes_str pat cs)"

text \<open>
  White space in the sense of \<open>String.prototype.trim\<close>, read on the UTF-8 bytes: the ASCII
  characters TAB, LF, VT, FF, CR and space, and the encodings of U+00A0, U+1680,
  U+2000..U+200A, U+2028, U+2029, U+202F, U+205F, U+3000 and U+FEFF.  \<open>trimStart\<close> drops the
  leading white space; \<open>s.trim()\<close> is empty exactly when \<open>trimStart s\<close> is.
\<close>

definition byte :: "char \<Rightarrow> nat" where
  "byte c = of_char c"

text \<open>The number of bytes of the white-space character a text starts with; 0 if it starts
  with none.\<close>

definition space_length :: "string \<Rightarrow> nat" where
  "space_length s =
     (case map byte (take 3 s) of
        [] \<Rightarrow> 0
      | a # r \<Rightarrow>
          if a \<in> set [9, 10, 11, 12, 13, 32] then 1
          else (case r of
              [] \<Rightarrow> 0
            | b # r' \<Rightarrow>
                if (a, b) = (0xC2, 0xA0) then 2
                else (case r' of
                    [] \<Rightarrow> 0
                  | c # r'' \<Rightarrow>
                      if (a, b, c) \<in> set [(0xE1, 0x9A, 0x80), (0xE2, 0x80, 0xA8),
                            (0xE2, 0x80, 0xA9), (0xE2, 0x80, 0xAF), (0xE2, 0x81, 0x9F),
                            (0xE3, 0x80, 0x80), (0xEF, 0xBB, 0xBF)]
                          \<or> (a = 0xE2 \<and> b = 0x80 \<and> 0x80 \<le> c \<and> c \<le> 0x8A)
                      then 3 else 0)))"

lemma space_length_le: "space_length s \<le> length s"
  by (cases s rule: list.exhaust; cases "tl s"; cases "tl (tl s)")
     (auto simp: space_length_def)

function trimStart :: "string \<Rightarrow> string" where
  "trimStart s = (if space_length s = 0 then s else trimStart (drop (space_length s) s))"
  by pat_completeness auto
termination
proof (relation "measure length")
  show "wf (measure length)" by simp
next
  fix s :: string
  assume "space_length s \<noteq> 0"
  moreover have "space_length s \<le> length s" by (rule space_length_le)
  ultimately show "(drop (space_length s) s, s) \<in> measure length" by simp
qed

declare trimStart.simps [simp del]

text \<open>\<open>s && s.trim()\<close> and \<open>s && s.trim().length > 0\<close> as conditions.\<close>

definition trim_nonempty :: "string \<Rightarrow> bool" where
  "trim_nonempty s = (trimStart s \<noteq> [])"

text \<open>
  \<open>s.toLowerCase()\<close>.  On text that is ASCII only it maps \<open>A..Z\<close> to \<open>a..z\<close>; on other
  text the Unicode case mapping of the runtime applies, which is a parameter here.
\<close>

definition is_ascii :: "char \<Rightarrow> bool" where
  "is_ascii c = ((of_char c :: nat) < 128)"

definition ascii_lower :: "char \<Rightarrow> char" where
  "ascii_lower c =
     (if 65 \<le> (of_char c :: nat) \<and> (of_char c :: nat) \<le> 90
      then char_of (of_char c + (32 :: nat)) else c)"

definition toLowerCase :: "(string \<Rightarrow> string) \<Rightarrow> string \<Rightarrow> string" where
  "toLowerCase unicode_lower s =
     (if list_all is_ascii s then map ascii_lower s else unicode_lower s)"

text \<open>
  The regular expression \<open>/\{[\s\S]*\}/\<close> of \<open>output.match\<close>: the text from the first
  \<open>{\<close> to the last \<open>}\<close> after it, if there is one.
\<close>

definition json_match :: "string \<Rightarrow> string option" where
  "json_match s =
     (case dropWhile (\<lambda>c. c \<noteq> CHR ''{'') s of
        [] \<Rightarrow> None
      | b # t \<Rightarrow>
          (case dropWhile (\<lambda>c. c \<noteq> CHR ''}'') (rev t) of
             [] \<Rightarrow> None
           | r \<Rightarrow> Some (b # rev r)))"

text \<open>
  How JavaScript reads a template literal that has no substitution: from the character
  after the opening backtick, the characters up to the first backtick that no backslash
  escapes are the text of the literal, and the program text goes on after that backtick.
  \<open>None\<close> when the text ends first or a substitution \<open>${\<close> opens.
\<close>

fun template_end :: "string \<Rightarrow> (string \<times> string) option" where
  "template_end [] = None"
| "template_end (c # cs) =
     (if c = CHR ''`'' then Some ([], cs)
      else if c = CHR 0x5C
      then (case cs of
              [] \<Rightarrow> None
            | d # ds \<Rightarrow> map_option (\<lambda>(text, rest). (c # d # text, rest)) (template_end ds))
      else if c = CHR ''$'' \<and> startsWith ''{'' cs then None
      else map_option (\<lambda>(text, rest). (c # text, rest)) (template_end cs))"

text \<open>\<open>obj.key\<close> on a parsed JSON value that is not \<open>null\<close>: \<open>None\<close> is \<open>undefined\<close>.\<close>

fun property :: "string \<Rightarrow> json \<Rightarrow> json option" where
  "property k (JObject kvs) = map_of kvs k"
| "property k j = None"

text \<open>Functions of the runtime and its libraries that the repository calls: the
  HMAC-SHA256 of \<open>crypto\<close> (key, then data), Base64, \<open>JSON.stringify\<close> of a string,
  \<open>JSON.parse\<close> (\<open>None\<close> is a \<open>SyntaxError\<close>), \<open>JSON.parse\<close> of a request body read at the
  type \<open>GitHubWebhookPayload\<close>, and the Unicode lower-casing.\<close>

record GitHubIssue =
  issue_number :: int
  issue_title :: string
  issue_body :: "string option"
  issue_html_url :: string

record GitHubRepository =
  repo_name :: string
  repo_owner_login :: string
  repo_clone_url :: string
  repo_html_url :: string
  repo_default_branch :: string

record GitHubWebhookPayload =
  payload_action :: string
  payload_issue :: "GitHubIssue js_field"
  payload_repository :: GitHubRepository

record runtime =
  hmac_sha256 :: "string \<Rightarrow> string \<Rightarrow> 256 word"
  base64 :: "string \<Rightarrow> string"
  JSON_stringify :: "string \<Rightarrow> string"
  JSON_parse :: "string \<Rightarrow> json option"
  JSON_parse_payload :: "string \<Rightarrow> error + GitHubWebhookPayload"
  unicode_lower :: "string \<Rightarrow> string"

section \<open>Signature verification (\<open>lib/github-webhook.ts\<close>)\<close>

definition hex_digit :: "nat \<Rightarrow> char" where
  "hex_digit d = ''0123456789abcdef'' ! d"

fun hex_of_nat :: "nat \<Rightarrow> nat \<Rightarrow> string" where
  "hex_of_nat 0 n = []"
| "hex_of_nat (Suc k) n = hex_of_nat k (n div 16) @ [hex_digit (n mod 16)]"

text \<open>\<open>hmac.digest('hex')\<close>: the 32 bytes of the MAC as 64 lower-case hex digits.\<close>

definition hex_digest :: "256 word \<Rightarrow> string" where
  "hex_digest x = hex_of_nat 64 (unat x)"

text \<open>\<open>crypto.timingSafeEqual(Buffer.from(a), Buffer.from(b))\<close>: Node throws a
  \<open>RangeError\<close> when the two buffers differ in byte length.\<close>

definition timingSafeEqual :: "string \<Rightarrow> string \<Rightarrow> error + bool" where
  "timingSafeEqual a b =
     (if length a \<noteq> length b
      then Inl (RangeError ''Input buffers must have the same byte length'')
      else Inr (a = b))"

definition verifyGitHubSignature ::
  "runtime \<Rightarrow> string \<Rightarrow> string option \<Rightarrow> string \<Rightarrow> error + bool" where
  "verifyGitHubSignature rt payload signature secret =
     (if \<not> truthy signature then Inr False
      else
        let digest = ''sha256='' @ hex_digest (hmac_sha256 rt secret payload)
        in timingSafeEqual (the signature) digest)"

definition isIssueOpenedEvent :: "GitHubWebhookPayload \<Rightarrow> bool" where
  "isIssueOpenedEvent payload = (payload_action payload = ''opened'' \<and> payload_issue payload \<noteq> Undefined)"

section \<open>Issue parsing (\<open>lib/issue-parser.ts\<close>)\<close>

record ParsedIssue =
  parsed_issueNumber :: int
  parsed_title :: string
  parsed_body :: string
  parsed_repositoryUrl :: string
  parsed_repositoryName :: string
  parsed_repositoryOwner :: string
  parsed_cloneUrl :: string
  parsed_defaultBranch :: string
  parsed_issueUrl :: string

text \<open>\<open>parseIssue\<close> reads fields of \<open>payload.issue\<close>; on \<open>null\<close> or \<open>undefined\<close> that is a
  \<open>TypeError\<close>.\<close>

definition parseIssue :: "GitHubWebhookPayload \<Rightarrow> error + ParsedIssue" where
  "parseIssue payload =
     (case payload_issue payload of
        Value i \<Rightarrow>
          Inr \<lparr> parsed_issueNumber = issue_number i,
                parsed_title = issue_title i,
                parsed_body = (if truthy (issue_body i) then the (issue_body i) else ''''),
                parsed_repositoryUrl = repo_html_url (payload_repository payload),
                parsed_repositoryName = repo_name (payload_repository payload),
                parsed_repositoryOwner = repo_owner_login (payload_repository payload),
                parsed_cloneUrl = repo_clone_url (payload_repository payload),
                parsed_defaultBranch = repo_default_branch (payload_repository payload),
                parsed_issueUrl = issue_html_url i \<rparr>
      | _ \<Rightarrow> Inl (TypeError ''Cannot read properties of null or undefined''))"

definition validateParsedIssue :: "ParsedIssue \<Rightarrow> bool" where
  "validateParsedIssue i =
     (parsed_issueNumber i > 0 \<and> length (parsed_title i) > 0 \<and> length (parsed_repositoryName i) > 0
      \<and> length (parsed_repositoryOwner i) > 0 \<and> length (parsed_cloneUrl i) > 0)"

section \<open>The in-memory run store (\<open>lib/db.ts\<close>)\<close>

datatype issue_status = Pending | Processing | Completed | Failed

record InMemoryIssue =
  i_issueNumber :: int
  i_repositoryName :: string
  i_repositoryOwner :: string
  i_title :: string
  i_body :: string
  i_beforeWorkspaceId :: "string option"
  i_afterWorkspaceId :: "string option"
  i_status :: issue_status
  i_createdAt :: int
  i_updatedAt :: int

text \<open>\<open>Partial<InMemoryIssue>\<close>: every field may be left out.\<close>

record InMemoryIssue_partial =
  p_issueNumber :: "int option"
  p_repositoryName :: "string option"
  p_repositoryOwner :: "string option"
  p_title :: "string option"
  p_body :: "string option"
  p_beforeWorkspaceId :: "string option"
  p_afterWorkspaceId :: "string option"
  p_status :: "issue_status option"
  p_createdAt :: "int option"
  p_updatedAt :: "int option"

definition no_updates :: InMemoryIssue_partial where
  "no_updates =
     \<lparr> p_issueNumber = None, p_repositoryName = None, p_repositoryOwner = None,
       p_title = None, p_body = None, p_beforeWorkspaceId = None,
       p_afterWorkspaceId = None, p_status = None, p_createdAt = None,
       p_updatedAt = None \<rparr>"

type_synonym db = "int \<rightharpoonup> InMemoryIssue"

definition saveIssue :: "InMemoryIssue \<Rightarrow> db \<Rightarrow> db" where
  "saveIssue i issues = issues(i_issueNumber i \<mapsto> i)"

definition getIssue :: "int \<Rightarrow> db \<Rightarrow> InMemoryIssue option" where
  "getIssue n issues = issues n"

text \<open>The object spread \<open>{...issue, ...updates}\<close>.\<close>

definition spread :: "InMemoryIssue \<Rightarrow> InMemoryIssue_partial \<Rightarrow> InMemoryIssue" where
  "spread i u =
     \<lparr> i_issueNumber = (case p_issueNumber u of Some v \<Rightarrow> v | None \<Rightarrow> i_issueNumber i),
       i_repositoryName = (case p_repositoryName u of Some v \<Rightarrow> v | None \<Rightarrow> i_repositoryName i),
       i_repositoryOwner =
         (case p_repositoryOwner u of Some v \<Rightarrow> v | None \<Rightarrow> i_repositoryOwner i),
       i_title = (case p_title u of Some v \<Rightarrow> v | None \<Rightarrow> i_title i),
       i_body = (case p_body u of Some v \<Rightarrow> v | None \<Rightarrow> i_body i),
       i_beforeWorkspaceId =
         (case p_beforeWorkspaceId u of Some v \<Rightarrow> Some v | None \<Rightarrow> i_beforeWorkspaceId i),
       i_afterWorkspaceId =
         (case p_afterWorkspaceId u of Some v \<Rightarrow> Some v | None \<Rightarrow> i_afterWorkspaceId i),
       i_status = (case p_status u of Some v \<Rightarrow> v | None \<Rightarrow> i_status i),
       i_createdAt = (case p_createdAt u of Some v \<Rightarrow> v | None \<Rightarrow> i_createdAt i),
       i_updatedAt = (case p_updatedAt u of Some v \<Rightarrow> v | None \<Rightarrow> i_updatedAt i) \<rparr>"

text \<open>\<open>updateIssue\<close>; \<open>now\<close> is the \<open>new Date()\<close> of the call.\<close>

definition updateIssue :: "int \<Rightarrow> int \<Rightarrow> InMemoryIssue_partial \<Rightarrow> db \<Rightarrow> db" where
  "updateIssue now n updates issues =
     (case issues n of
        Some i \<Rightarrow> issues(n \<mapsto> (spread i updates)\<lparr> i_updatedAt := now \<rparr>)
      | None \<Rightarrow> issues)"

section \<open>The Daytona SDK and the remote world\<close>

text \<open>
  The SDK (\<open>@daytonaio/sdk\<close>) is outside the repository.  Each of its operations is a
  parameter: a function of the state \<open>'w\<close> of the remote world that returns what the call
  resolves to (\<open>Inr\<close>) or what it rejects with (\<open>Inl\<close>), and the next state.  Every call is
  recorded, with its outcome, in a trace, in the order in which the calls settle.  The
  world also holds the clock (\<open>sdk_now\<close>) and decides how long a command takes:
  \<open>sdk_progressChecks w\<close> is the number of process checks that the progress timer of
  \<open>runClaudeCodeInSandbox\<close> makes while the agent command issued in \<open>w\<close> is pending.
\<close>

record Sandbox =
  sandbox_id :: string
  sandbox_name :: string
  sandbox_state :: string

record CreateOptions =
  co_name :: string
  co_labels :: "(string \<times> string) list"
  co_public :: bool
  co_snapshot :: "string option"
  co_envVars :: "(string \<times> string) list option"

record ExecuteResponse =
  exitCode :: int
  exec_result :: string

record PreviewInfo =
  preview_url :: string
  preview_token :: string

text \<open>\<open>ExecuteCommand id command cwd timeout\<close>, \<open>GitClone id url path credentials\<close>,
  \<open>UploadFile id content path\<close>.\<close>

datatype request =
    Create CreateOptions
  | Get string
  | GetWorkDir string
  | ExecuteCommand string string "string option" "int option"
  | GitClone string string string "(string \<times> string) option"
  | GetPreviewLink string int
  | UploadFile string string string

datatype reply =
    ReplySandbox Sandbox
  | ReplyString string
  | ReplyExec ExecuteResponse
  | ReplyPreview PreviewInfo
  | ReplyUnit

type_synonym trace = "(request \<times> (error + reply)) list"

record 'w daytona_sdk =
  sdk_create :: "CreateOptions \<Rightarrow> 'w \<Rightarrow> (error + Sandbox) \<times> 'w"
  sdk_get :: "string \<Rightarrow> 'w \<Rightarrow> (error + Sandbox) \<times> 'w"
  sdk_getWorkDir :: "Sandbox \<Rightarrow> 'w \<Rightarrow> (error + string) \<times> 'w"
  sdk_executeCommand ::
    "Sandbox \<Rightarrow> string \<Rightarrow> string option \<Rightarrow> int option \<Rightarrow> 'w \<Rightarrow> (error + ExecuteResponse) \<times> 'w"
  sdk_clone ::
    "Sandbox \<Rightarrow> string \<Rightarrow> string \<Rightarrow> (string \<times> string) option \<Rightarrow> 'w \<Rightarrow> (error + unit) \<times> 'w"
  sdk_getPreviewLink :: "Sandbox \<Rightarrow> int \<Rightarrow> 'w \<Rightarrow> (error + PreviewInfo) \<times> 'w"
  sdk_uploadFile :: "Sandbox \<Rightarrow> string \<Rightarrow> string \<Rightarrow> 'w \<Rightarrow> (error + unit) \<times> 'w"
  sdk_now :: "'w \<Rightarrow> int"
  sdk_progressChecks :: "'w \<Rightarrow> nat"

record process_env =
  WEBHOOK_SECRET :: "string option"
  DAYTONA_API_KEY :: "string option"
  DAYTONA_API_URL :: "string option"
  ANTHROPIC_API_KEY :: "string option"
  GITHUB_TOKEN :: "string option"

subsection \<open>Asynchronous code as state passing\<close>

text \<open>An \<open>async\<close> computation takes the world and returns its outcome, the new world and
  the calls it made.  \<open>await\<close> sequences, \<open>try_catch\<close> is \<open>try { ... } catch (error) { ... }\<close>.\<close>

type_synonym ('a, 'w) remote = "'w \<Rightarrow> (error + 'a) \<times> 'w \<times> trace"

definition ret :: "'a \<Rightarrow> ('a, 'w) remote" where
  "ret x = (\<lambda>w. (Inr x, w, []))"

definition throw :: "error \<Rightarrow> ('a, 'w) remote" where
  "throw e = (\<lambda>w. (Inl e, w, []))"

definition await :: "('a, 'w) remote \<Rightarrow> ('a \<Rightarrow> ('b, 'w) remote) \<Rightarrow> ('b, 'w) remote" where
  "await m f =
     (\<lambda>w. case m w of
        (Inl e, w', t) \<Rightarrow> (Inl e, w', t)
      | (Inr x, w', t) \<Rightarrow> (case f x w' of (r, w'', t') \<Rightarrow> (r, w'', t @ t')))"

definition try_catch :: "('a, 'w) remote \<Rightarrow> (error \<Rightarrow> ('a, 'w) remote) \<Rightarrow> ('a, 'w) remote" where
  "try_catch m h =
     (\<lambda>w. case m w of
        (Inl e, w', t) \<Rightarrow> (case h e w' of (r, w'', t') \<Rightarrow> (r, w'', t @ t'))
      | (Inr x, w', t) \<Rightarrow> (Inr x, w', t))"

definition call ::
  "request \<Rightarrow> ('a \<Rightarrow> reply) \<Rightarrow> ('w \<Rightarrow> (error + 'a) \<times> 'w) \<Rightarrow> ('a, 'w) remote" where
  "call rq mk f =
     (\<lambda>w. case f w of
        (Inl e, w') \<Rightarrow> (Inl e, w', [(rq, Inl e)])
      | (Inr x, w') \<Rightarrow> (Inr x, w', [(rq, Inr (mk x))]))"

definition daytona_create :: "'w daytona_sdk \<Rightarrow> CreateOptions \<Rightarrow> (Sandbox, 'w) remote" where
  "daytona_create sdk opts = call (Create opts) ReplySandbox (sdk_create sdk opts)"

definition daytona_get :: "'w daytona_sdk \<Rightarrow> string \<Rightarrow> (Sandbox, 'w) remote" where
  "daytona_get sdk sandboxId = call (Get sandboxId) ReplySandbox (sdk_get sdk sandboxId)"

definition getWorkDir :: "'w daytona_sdk \<Rightarrow> Sandbox \<Rightarrow> (string, 'w) remote" where
  "getWorkDir sdk sandbox =
     call (GetWorkDir (sandbox_id sandbox)) ReplyString (sdk_getWorkDir sdk sandbox)"

definition executeCommand ::
  "'w daytona_sdk \<Rightarrow> Sandbox \<Rightarrow> string \<Rightarrow> string option \<Rightarrow> int option
     \<Rightarrow> (ExecuteResponse, 'w) remote" where
  "executeCommand sdk sandbox command cwd timeout =
     call (ExecuteCommand (sandbox_id sandbox) command cwd timeout) ReplyExec
       (sdk_executeCommand sdk sandbox command cwd timeout)"

definition git_clone ::
  "'w daytona_sdk \<Rightarrow> Sandbox \<Rightarrow> string \<Rightarrow> string \<Rightarrow> (string \<times> string) option
     \<Rightarrow> (unit, 'w) remote" where
  "git_clone sdk sandbox repoUrl path credentials =
     call (GitClone (sandbox_id sandbox) repoUrl path credentials) (\<lambda>u. ReplyUnit)
       (sdk_clone sdk sandbox repoUrl path credentials)"

definition getPreviewLink :: "'w daytona_sdk \<Rightarrow> Sandbox \<Rightarrow> int \<Rightarrow> (PreviewInfo, 'w) remote" where
  "getPreviewLink sdk sandbox port =
     call (GetPreviewLink (sandbox_id sandbox) port) ReplyPreview
       (sdk_getPreviewLink sdk sandbox port)"

definition uploadFile :: "'w daytona_sdk \<Rightarrow> Sandbox \<Rightarrow> string \<Rightarrow> string \<Rightarrow> (unit, 'w) remote" where
  "uploadFile sdk sandbox content path =
     call (UploadFile (sandbox_id sandbox) content path) (\<lambda>u. ReplyUnit)
       (sdk_uploadFile sdk sandbox content path)"

text \<open>\<open>Date.now()\<close> and \<open>new Date()\<close>.\<close>

definition date_now :: "'w daytona_sdk \<Rightarrow> (int, 'w) remote" where
  "date_now sdk = (\<lambda>w. (Inr (sdk_now sdk w), w, []))"

section \<open>The Daytona client (\<open>lib/daytona.ts\<close>)\<close>

record DaytonaWorkspace =
  ws_id :: string
  ws_name :: string
  ws_project_name :: string
  ws_repository_url :: string
  ws_ideUrl :: "string option"
  ws_status :: "string option"
  ws_previewUrl :: "string option"
  ws_previewToken :: "string option"

record SandboxPair =
  before :: DaytonaWorkspace
  after :: DaytonaWorkspace

definition CLAUDE_SNAPSHOT_NAME :: string where
  "CLAUDE_SNAPSHOT_NAME = ''claude-code-bugfixer:1.0.0''"

text \<open>\<open>`${workDir || '/home/user'}/${repoName}`\<close>.\<close>

definition repoPath_of :: "string \<Rightarrow> string \<Rightarrow> string" where
  "repoPath_of workDir repoName =
     (if workDir \<noteq> [] then workDir else ''/home/user'') @ ''/'' @ repoName"

definition createAndSetupSandbox ::
  "process_env \<Rightarrow> 'w daytona_sdk \<Rightarrow> ParsedIssue \<Rightarrow> string \<Rightarrow> (string \<times> string) list \<Rightarrow> bool
     \<Rightarrow> string option \<Rightarrow> (Sandbox \<times> DaytonaWorkspace, 'w) remote" where
  "createAndSetupSandbox env sdk issue workspaceName labels useClaudeSnapshot anthropicApiKey =
     (let createOptions =
        \<lparr> co_name = workspaceName,
          co_labels = labels,
          co_public = True,
          co_snapshot = (if useClaudeSnapshot then Some CLAUDE_SNAPSHOT_NAME else None),
          co_envVars =
            (if useClaudeSnapshot \<and> truthy anthropicApiKey
             then Some [(''ANTHROPIC_API_KEY'', the anthropicApiKey)] else None) \<rparr>
      in
      await (daytona_create sdk createOptions) (\<lambda>sandbox.
      await (if useClaudeSnapshot
             then try_catch
                    (await (executeCommand sdk sandbox
                              ''id claude || useradd -m -s /bin/bash claude'' None None)
                       (\<lambda>r. ret ()))
                    (\<lambda>error. ret ())
             else ret ()) (\<lambda>u.
      await (getWorkDir sdk sandbox) (\<lambda>workDir.
      let repoPath = repoPath_of workDir (parsed_repositoryName issue) in
      await (if truthy (GITHUB_TOKEN env) \<and> includes_str ''github.com'' (parsed_cloneUrl issue)
             then git_clone sdk sandbox (parsed_cloneUrl issue) repoPath
                    (Some (''git'', the (GITHUB_TOKEN env)))
             else git_clone sdk sandbox (parsed_cloneUrl issue) repoPath None) (\<lambda>u.
      await (getPreviewLink sdk sandbox 3000) (\<lambda>previewInfo.
      ret (sandbox,
           \<lparr> ws_id = sandbox_id sandbox,
             ws_name = sandbox_name sandbox,
             ws_project_name = parsed_repositoryName issue,
             ws_repository_url = parsed_cloneUrl issue,
             ws_ideUrl = None,
             ws_status = Some (sandbox_state sandbox),
             ws_previewUrl = Some (preview_url previewInfo),
             ws_previewToken = Some (preview_token previewInfo) \<rparr>)))))))"

text \<open>The labels of the two sandboxes of a pair; \<open>role\<close> is \<open>before\<close> or \<open>after\<close>.\<close>

definition pair_labels :: "ParsedIssue \<Rightarrow> string \<Rightarrow> (string \<times> string) list" where
  "pair_labels issue role =
     [(''issueNumber'', show_int (parsed_issueNumber issue)),
      (''repository'', parsed_repositoryName issue),
      (''repositoryOwner'', parsed_repositoryOwner issue),
      (''type'', role)]"

definition createSandboxPair ::
  "process_env \<Rightarrow> 'w daytona_sdk \<Rightarrow> ParsedIssue \<Rightarrow> string \<Rightarrow> (SandboxPair, 'w) remote" where
  "createSandboxPair env sdk issue anthropicApiKey =
     await (date_now sdk) (\<lambda>timestamp.
     let baseName = ''issue-'' @ show_int (parsed_issueNumber issue) in
     try_catch
       (await (createAndSetupSandbox env sdk issue
                 (baseName @ ''-before-'' @ show_int timestamp)
                 (pair_labels issue ''before'') True None) (\<lambda>beforeResult.
        await (createAndSetupSandbox env sdk issue
                 (baseName @ ''-after-'' @ show_int timestamp)
                 (pair_labels issue ''after'') True (Some anthropicApiKey)) (\<lambda>afterResult.
        ret \<lparr> before = snd beforeResult, after = snd afterResult \<rparr>)))
       (\<lambda>error. throw error))"

subsection \<open>Running the agent\<close>

definition claude_prompt :: "string \<Rightarrow> string \<Rightarrow> string" where
  "claude_prompt issueTitle issueBody =
     ''Fix the following GitHub issue. Do it quick, dont take too long.:\<newline>\<newline>Title: ''
     @ issueTitle @ ''\<newline>\<newline>Description:\<newline>'' @ issueBody
     @ ''\<newline>\<newline>Please:\<newline>''
     @ ''1. Implement the fix or thing asked in the issue title and description\<newline>''
     @ ''2. Make the necessary file changes directly''"

definition chown_claude :: "string \<Rightarrow> string" where
  "chown_claude repoPath = ''chown -R claude:claude '' @ repoPath"

definition chown_root :: "string \<Rightarrow> string" where
  "chown_root repoPath = ''chown -R root:root '' @ repoPath"

definition claudeCommand :: "string \<Rightarrow> string \<Rightarrow> string" where
  "claudeCommand repoPath promptBase64 =
     ''su claude -c \"cd '' @ repoPath
     @ '' && claude --dangerously-skip-permissions -p '' @ [CHR 0x5C, CHR 0x22, CHR 0x5C]
     @ ''$(echo '' @ [CHR 0x27] @ promptBase64 @ [CHR 0x27] @ '' | base64 -d)''
     @ [CHR 0x5C, CHR 0x22] @ '' --output-format json\"''"

text \<open>The object returned when the output holds no JSON that parses.\<close>

definition degraded_result :: "string \<Rightarrow> int \<Rightarrow> json" where
  "degraded_result outputToParse code =
     JObject [(''result'', JString outputToParse),
              (''warning'', JString ''Could not parse JSON response''),
              (''exitCode'', JNumber code)]"

text \<open>The \<open>try\<close> block that extracts and parses the JSON of the output, with its \<open>catch\<close>.\<close>

definition parse_claude_output :: "runtime \<Rightarrow> ExecuteResponse \<Rightarrow> json" where
  "parse_claude_output rt commandResult =
     (let outputToParse = exec_result commandResult in
      case json_match outputToParse of
        Some jsonMatch \<Rightarrow>
          (case JSON_parse rt jsonMatch of
             Some parsed \<Rightarrow> parsed
           | None \<Rightarrow> degraded_result outputToParse (exitCode commandResult))
      | None \<Rightarrow> degraded_result outputToParse (exitCode commandResult))"

text \<open>
  The progress timer.  \<open>setInterval\<close> calls back every 5 seconds while the agent command is
  pending; when the elapsed seconds are a multiple of 10 the callback runs a process
  check, a command in a \<open>try\<close> of its own whose result is only printed.  The checks that
  the timer makes while the command is pending are taken to settle before the command
  does.  \<open>clearInterval\<close> is called after the command has returned and nowhere else: when
  the command throws the timer is never cleared, and its later checks are calls of the
  process that are not part of the trace of \<open>runClaudeCodeInSandbox\<close>.
\<close>

definition process_check_command :: string where
  "process_check_command =
     ''ps aux | grep -E '' @ [CHR 0x27] @ ''[c]laude.*--output-format'' @ [CHR 0x27]
     @ '' || echo '' @ [CHR 0x27] @ ''NOT_RUNNING'' @ [CHR 0x27]"

definition process_check :: "'w daytona_sdk \<Rightarrow> Sandbox \<Rightarrow> (unit, 'w) remote" where
  "process_check sdk sandbox =
     try_catch
       (await (executeCommand sdk sandbox process_check_command None None) (\<lambda>processCheck. ret ()))
       (\<lambda>error. ret ())"

fun progress_checks :: "'w daytona_sdk \<Rightarrow> Sandbox \<Rightarrow> nat \<Rightarrow> (unit, 'w) remote" where
  "progress_checks sdk sandbox 0 = ret ()"
| "progress_checks sdk sandbox (Suc n) =
     await (process_check sdk sandbox) (\<lambda>u. progress_checks sdk sandbox n)"

definition progress_timer :: "'w daytona_sdk \<Rightarrow> Sandbox \<Rightarrow> (unit, 'w) remote" where
  "progress_timer sdk sandbox =
     (\<lambda>w. progress_checks sdk sandbox (sdk_progressChecks sdk w) w)"

text \<open>\<open>runClaudeCodeInSandbox\<close>, without its logging.\<close>

definition runClaudeCodeInSandbox ::
  "runtime \<Rightarrow> 'w daytona_sdk \<Rightarrow> sandbox_ref \<Rightarrow> repo_name \<Rightarrow> string \<Rightarrow> string
     \<Rightarrow> (json, 'w) remote" where
  "runClaudeCodeInSandbox rt sdk sandboxId repoName issueTitle issueBody =
     await (daytona_get sdk sandboxId) (\<lambda>sandbox.
     await (getWorkDir sdk sandbox) (\<lambda>workDir.
     let repoPath = repoPath_of workDir repoName;
         promptBase64 = base64 rt (claude_prompt issueTitle issueBody)
     in
     await (try_catch
              (await (executeCommand sdk sandbox (chown_claude repoPath) None None)
                 (\<lambda>r. ret ()))
              (\<lambda>error. ret ())) (\<lambda>u.
     await (try_catch
              (await (progress_timer sdk sandbox) (\<lambda>u.
               await (executeCommand sdk sandbox (claudeCommand repoPath promptBase64)
                        (Some repoPath) (Some 600000)) (\<lambda>response.
               await (if trim_nonempty (exec_result response) then ret ()
                      else
                        await (try_catch
                                 (await (executeCommand sdk sandbox ''which claude''
                                           (Some repoPath) None) (\<lambda>r. ret ()))
                                 (\<lambda>e. ret ())) (\<lambda>u.
                        try_catch
                          (await (executeCommand sdk sandbox
                                    (''test -d '' @ repoPath
                                       @ '' && echo \"EXISTS\" || echo \"NOT FOUND\"'')
                                    (Some repoPath) None) (\<lambda>r. ret ()))
                          (\<lambda>e. ret ()))) (\<lambda>u.
               ret response))))
              (\<lambda>error. throw error)) (\<lambda>commandResult.
     let result = parse_claude_output rt commandResult in
     await (try_catch
              (await (executeCommand sdk sandbox (chown_root repoPath) None None)
                 (\<lambda>r. ret ()))
              (\<lambda>error. ret ())) (\<lambda>u.
     ret result)))))"

subsection \<open>Publishing: branch, commit, push, pull request\<close>

text \<open>\<open>title.toLowerCase().replace(/[^a-z0-9]+/g, '-').replace(/^-+|-+$/g, '').substring(0, 50)\<close>\<close>

definition is_lower_alnum :: "char \<Rightarrow> bool" where
  "is_lower_alnum c =
     ((97 \<le> byte c \<and> byte c \<le> 122) \<or> (48 \<le> byte c \<and> byte c \<le> 57))"

function replace_non_alnum :: "string \<Rightarrow> string" where
  "replace_non_alnum [] = []"
| "replace_non_alnum (c # cs) =
     (if is_lower_alnum c then c # replace_non_alnum cs
      else CHR ''-'' # replace_non_alnum (dropWhile (\<lambda>d. \<not> is_lower_alnum d) cs))"
  by pat_completeness auto
termination
  by (relation "measure length") (auto simp: length_dropWhile_le less_Suc_eq_le)

definition strip_hyphens :: "string \<Rightarrow> string" where
  "strip_hyphens s =
     rev (dropWhile (\<lambda>c. c = CHR ''-'') (rev (dropWhile (\<lambda>c. c = CHR ''-'') s)))"

definition branchName_of :: "runtime \<Rightarrow> int \<Rightarrow> string \<Rightarrow> string" where
  "branchName_of rt issueNumber issueTitle =
     ''autofix/issue-'' @ show_int issueNumber @ ''-''
     @ take 50 (strip_hyphens (replace_non_alnum (toLowerCase (unicode_lower rt) issueTitle)))"

text \<open>\<open>commitMessage.replace(/'/g, "'\\''")\<close>\<close>

definition escape_quotes :: "string \<Rightarrow> string" where
  "escape_quotes s =
     concat (map (\<lambda>c. if c = CHR 0x27 then [CHR 0x27, CHR 0x5C, CHR 0x27, CHR 0x27] else [c]) s)"

definition commitMessage_of :: "string \<Rightarrow> int \<Rightarrow> string" where
  "commitMessage_of issueTitle issueNumber =
     ''AutoFix: '' @ issueTitle @ ''\<newline>\<newline>Fixes #'' @ show_int issueNumber
     @ ''\<newline>\<newline>This PR was automatically generated by AutoFixer.''"

definition commit_command :: "string \<Rightarrow> int \<Rightarrow> string" where
  "commit_command issueTitle issueNumber =
     ''git commit -m '' @ [CHR 0x27] @ escape_quotes (commitMessage_of issueTitle issueNumber)
     @ [CHR 0x27]"

definition no_changes_summary :: string where
  "no_changes_summary =
     ''No code changes detected. This PR was created to track the issue resolution process.''"

text \<open>
  The script that creates the pull request, as the template literal \<open>prScript\<close> builds it,
  line by line.  In that template \<open>${...}\<close> is filled in when the script is built, while
  \<open>\${...}\<close> and \<open>\`\<close> put \<open>${...}\<close> and a backtick into the script.  The script has three
  parts: the constants, the statement that defines \<open>prBody\<close>, and the request with the
  output of its result.
\<close>

definition script_constants ::
  "runtime \<Rightarrow> token \<Rightarrow> string \<Rightarrow> url \<Rightarrow> token \<Rightarrow> url \<Rightarrow> token \<Rightarrow> string \<Rightarrow> string list" where
  "script_constants rt githubToken issueTitle beforePreviewUrl beforePreviewToken
       afterPreviewUrl afterPreviewToken changesSummary =
     [''const { Octokit } = require('' @ [CHR 0x27] @ ''@octokit/rest'' @ [CHR 0x27] @ '');'',
      '''',
      ''const octokit = new Octokit({'',
      ''  auth: '' @ JSON_stringify rt githubToken @ '','',
      ''});'',
      '''',
      ''async function createPR() {'',
      ''  try {'',
      ''    const prTitle = '' @ [CHR 0x27] @ ''AutoFix: '' @ [CHR 0x27] @ '' + '' @ JSON_stringify rt issueTitle @ '';'',
      ''    const beforePreviewUrl = '' @ JSON_stringify rt beforePreviewUrl @ '';'',
      ''    const beforePreviewToken = '' @ JSON_stringify rt beforePreviewToken @ '';'',
      ''    const afterPreviewUrl = '' @ JSON_stringify rt afterPreviewUrl @ '';'',
      ''    const afterPreviewToken = '' @ JSON_stringify rt afterPreviewToken @ '';'',
      ''    const changesSummary = '' @ JSON_stringify rt changesSummary @ '';'',
      ''    '']"

definition prBody_statement :: "int \<Rightarrow> string list" where
  "prBody_statement issueNumber =
     [''    const prBody = `## '' @ [CHR 0xF0, CHR 0x9F, CHR 0xA4, CHR 0x96] @ '' AutoFixer Pull Request'',
      '''',
      ''This PR was automatically generated to address issue #'' @ show_int issueNumber @ ''.'',
      '''',
      ''### '' @ [CHR 0xF0, CHR 0x9F, CHR 0x93, CHR 0x8B] @ '' Summary of Changes'',
      '''',
      ''```'',
      ''${changesSummary}'',
      ''```'',
      '''',
      ''### '' @ [CHR 0xF0, CHR 0x9F, CHR 0x94, CHR 0x97] @ '' Preview Sandboxes'',
      '''',
      ''**'' @ [CHR 0xF0, CHR 0x9F, CHR 0x94, CHR 0xB4] @ '' BEFORE Sandbox (Original State)**'',
      ''- Preview URL: ${beforePreviewUrl}'',
      ''- Access Token: `${beforePreviewToken}`'',
      ''- Access with: `curl -H \"x-daytona-preview-token: ${beforePreviewToken}\" ${beforePreviewUrl}`'',
      '''',
      ''**'' @ [CHR 0xF0, CHR 0x9F, CHR 0x9F, CHR 0xA2] @ '' AFTER Sandbox (With Fixes Applied)**'',
      ''- Preview URL: ${afterPreviewUrl}'',
      ''- Access Token: `${afterPreviewToken}`'',
      ''- Access with: `curl -H \"x-daytona-preview-token: ${afterPreviewToken}\" ${afterPreviewUrl}`'',
      '''',
      ''### '' @ [CHR 0xF0, CHR 0x9F, CHR 0x93, CHR 0x9D] @ '' Issue'',
      ''Closes #'' @ show_int issueNumber,
      '''',
      ''---'',
      ''*This PR was automatically created by AutoFixer. Please review the changes and sandbox previews before merging.*'',
      ''`;'',
      '''']"

definition script_request ::
  "runtime \<Rightarrow> string \<Rightarrow> repo_name \<Rightarrow> branch \<Rightarrow> branch \<Rightarrow> string list" where
  "script_request rt repositoryOwner repositoryName branchName defaultBranch =
     [''    const { data } = await octokit.rest.pulls.create({'',
      ''      owner: '' @ JSON_stringify rt repositoryOwner @ '','',
      ''      repo: '' @ JSON_stringify rt repositoryName @ '','',
      ''      title: prTitle,'',
      ''      body: prBody,'',
      ''      head: '' @ JSON_stringify rt branchName @ '','',
      ''      base: '' @ JSON_stringify rt defaultBranch @ '','',
      ''    });'',
      '''',
      ''    console.log(JSON.stringify({'',
      ''      prNumber: data.number,'',
      ''      prUrl: data.html_url,'',
      ''      branchName: '' @ JSON_stringify rt branchName @ '','',
      ''    }));'',
      ''  } catch (error) {'',
      ''    console.error('' @ [CHR 0x27] @ ''Error creating PR:'' @ [CHR 0x27] @ '', error.message);'',
      ''    process.exit(1);'',
      ''  }'',
      ''}'',
      '''',
      ''createPR();'']"

definition prScript ::
  "runtime \<Rightarrow> token \<Rightarrow> string \<Rightarrow> url \<Rightarrow> token \<Rightarrow> url \<Rightarrow> token \<Rightarrow> string \<Rightarrow> int
     \<Rightarrow> string \<Rightarrow> repo_name \<Rightarrow> branch \<Rightarrow> branch \<Rightarrow> string" where
  "prScript rt githubToken issueTitle beforePreviewUrl beforePreviewToken afterPreviewUrl
       afterPreviewToken changesSummary issueNumber repositoryOwner repositoryName branchName
       defaultBranch =
     ''\<newline>'' @ concat (map (\<lambda>l. l @ ''\<newline>'')
       (script_constants rt githubToken issueTitle beforePreviewUrl beforePreviewToken
          afterPreviewUrl afterPreviewToken changesSummary
        @ prBody_statement issueNumber
        @ script_request rt repositoryOwner repositoryName branchName defaultBranch))"

record PullRequest =
  pr_branchName :: "json option"
  pr_prUrl :: "json option"
  pr_prNumber :: "json option"

definition createBranchAndPR ::
  "runtime \<Rightarrow> 'w daytona_sdk \<Rightarrow> sandbox_ref \<Rightarrow> repo_name \<Rightarrow> int \<Rightarrow> string \<Rightarrow> string
     \<Rightarrow> repo_name \<Rightarrow> branch \<Rightarrow> token \<Rightarrow> url \<Rightarrow> url \<Rightarrow> token \<Rightarrow> token
     \<Rightarrow> (PullRequest, 'w) remote" where
  "createBranchAndPR rt sdk sandboxId repoName issueNumber issueTitle repositoryOwner
       repositoryName defaultBranch githubToken beforePreviewUrl afterPreviewUrl
       beforePreviewToken afterPreviewToken =
     await (daytona_get sdk sandboxId) (\<lambda>sandbox.
     await (getWorkDir sdk sandbox) (\<lambda>workDir.
     let repoPath = repoPath_of workDir repoName;
         branchName = branchName_of rt issueNumber issueTitle
     in
     await (executeCommand sdk sandbox
              (''git config user.name \"AutoFixer Bot\" && ''
                 @ ''git config user.email \"autofixer@daytona.io\"'')
              (Some repoPath) None) (\<lambda>r.
     await (try_catch
              (await (executeCommand sdk sandbox (''git checkout '' @ defaultBranch)
                        (Some repoPath) None) (\<lambda>r. ret ()))
              (\<lambda>error.
                 await (executeCommand sdk sandbox ''git fetch origin'' (Some repoPath) None)
                   (\<lambda>r.
                 await (executeCommand sdk sandbox (''git checkout '' @ defaultBranch)
                          (Some repoPath) None) (\<lambda>r. ret ())))) (\<lambda>u.
     await (executeCommand sdk sandbox ''git status --short'' (Some repoPath) None)
       (\<lambda>statusResult.
     let hasChanges = trim_nonempty (exec_result statusResult) in
     await (executeCommand sdk sandbox (''git checkout -b '' @ branchName)
              (Some repoPath) None) (\<lambda>r.
     await (if \<not> hasChanges then ret ()
            else
              await (executeCommand sdk sandbox ''git add -A'' (Some repoPath) None) (\<lambda>r.
              await (executeCommand sdk sandbox (commit_command issueTitle issueNumber)
                       (Some repoPath) None) (\<lambda>r. ret ()))) (\<lambda>u.
     let remoteUrl = ''https://'' @ githubToken @ ''@github.com/'' @ repositoryOwner @ ''/''
                       @ repositoryName @ ''.git''
     in
     await (try_catch
              (await (executeCommand sdk sandbox
                        (''git remote set-url origin '' @ remoteUrl
                           @ '' || git remote add origin '' @ remoteUrl)
                        (Some repoPath) None) (\<lambda>r.
               await (executeCommand sdk sandbox (''git push -u origin '' @ branchName)
                        (Some repoPath) None) (\<lambda>r. ret ())))
              (\<lambda>error. throw error)) (\<lambda>u.
     await (if hasChanges
            then try_catch
                   (await (executeCommand sdk sandbox
                             (''git diff '' @ defaultBranch @ ''..'' @ branchName @ '' --stat'')
                             (Some repoPath) None) (\<lambda>diffResult.
                    ret (if exec_result diffResult \<noteq> [] then exec_result diffResult
                         else ''Changes made (see diff)'')))
                   (\<lambda>error. ret ''Changes made (unable to generate diff summary)'')
            else ret no_changes_summary) (\<lambda>changesSummary.
     let prScriptPath = repoPath @ ''/.create-pr.js'' in
     await (uploadFile sdk sandbox
              (prScript rt githubToken issueTitle beforePreviewUrl beforePreviewToken
                 afterPreviewUrl afterPreviewToken changesSummary issueNumber repositoryOwner
                 repositoryName branchName defaultBranch)
              prScriptPath) (\<lambda>u.
     await (executeCommand sdk sandbox (''node '' @ prScriptPath) (Some repoPath) None)
       (\<lambda>prResult.
     await (case json_match (exec_result prResult) of
              Some jsonMatch \<Rightarrow>
                (case JSON_parse rt jsonMatch of
                   Some parsed \<Rightarrow> ret parsed
                 | None \<Rightarrow> throw (Error ''Failed to create PR''))
            | None \<Rightarrow> throw (Error ''Failed to create PR'')) (\<lambda>prData.
     if prData = JNull then throw (TypeError ''Cannot read properties of null'')
     else ret \<lparr> pr_branchName = property ''branchName'' prData,
                pr_prUrl = property ''prUrl'' prData,
                pr_prNumber = property ''prNumber'' prData \<rparr>))))))))))))"

subsection \<open>Starting the application, preview links\<close>

definition setupAndRunApp :: "'w daytona_sdk \<Rightarrow> string \<Rightarrow> string \<Rightarrow> (unit, 'w) remote" where
  "setupAndRunApp sdk sandboxId repoName =
     await (daytona_get sdk sandboxId) (\<lambda>sandbox.
     await (getWorkDir sdk sandbox) (\<lambda>workDir.
     let repoPath = repoPath_of workDir repoName in
     await (try_catch
              (await (executeCommand sdk sandbox ''which pnpm'' (Some repoPath) None)
                 (\<lambda>pnpmCheck. ret (trim_nonempty (exec_result pnpmCheck))))
              (\<lambda>error. ret False)) (\<lambda>usePnpm.
     await (if \<not> usePnpm
            then try_catch
                   (await (executeCommand sdk sandbox ''corepack enable'' (Some repoPath) None)
                      (\<lambda>r.
                    await (executeCommand sdk sandbox
                             ''corepack prepare pnpm@latest --activate'' (Some repoPath) None)
                      (\<lambda>r. ret True)))
                   (\<lambda>error. ret False)
            else ret usePnpm) (\<lambda>usePnpm.
     let packageManager = (if usePnpm then ''pnpm'' else ''npm'') in
     await (executeCommand sdk sandbox (packageManager @ '' install'') (Some repoPath) None)
       (\<lambda>installResult.
     await (executeCommand sdk sandbox
              (''nohup '' @ packageManager @ '' dev > /tmp/dev-server.log 2>&1 &'')
              (Some repoPath) None) (\<lambda>r.
     ret ()))))))"

definition getPreviewUrl :: "'w daytona_sdk \<Rightarrow> string \<Rightarrow> int \<Rightarrow> (PreviewInfo, 'w) remote" where
  "getPreviewUrl sdk sandboxId port =
     await (daytona_get sdk sandboxId) (\<lambda>sandbox.
     await (getPreviewLink sdk sandbox port) (\<lambda>previewInfo.
     ret \<lparr> preview_url = preview_url previewInfo,
           preview_token = preview_token previewInfo \<rparr>))"

section \<open>The webhook handler (\<open>pages/api/github-webhook.ts\<close>)\<close>

text \<open>A request: its method, the header \<open>x-hub-signature-256\<close> and what reading the body
  stream gives (the raw body, or the error of the stream).\<close>

record http_request =
  req_method :: string
  req_signature :: "string option"
  req_rawBody :: "error + string"

record SandboxSummary =
  sum_id :: string
  sum_name :: string
  sum_previewUrl :: "string option"
  sum_previewToken :: "string option"

text \<open>The JSON bodies the handler sends: \<open>{error}\<close>, \<open>{error, message}\<close>, \<open>{message}\<close> and
  \<open>{message, issue, sandboxes: {before, after}}\<close>.\<close>

datatype response_body =
    ErrorBody string
  | ErrorMessageBody string string
  | MessageBody string
  | ProcessedBody string ParsedIssue SandboxSummary SandboxSummary

record http_response =
  res_status :: int
  res_body :: response_body

definition respond :: "int \<Rightarrow> response_body \<Rightarrow> http_response" where
  "respond code b = \<lparr> res_status = code, res_body = b \<rparr>"

text \<open>The \<open>catch\<close> of the handler.\<close>

definition internal_server_error :: "error \<Rightarrow> http_response" where
  "internal_server_error e =
     respond 500 (ErrorMessageBody ''Internal server error'' (error_message e))"

text \<open>The message of the \<open>TypeError\<close> that reading the property \<open>key\<close> of \<open>null\<close> throws.\<close>

definition null_property_message :: "string \<Rightarrow> string" where
  "null_property_message key =
     ''Cannot read properties of null (reading '' @ [CHR 0x27] @ key @ [CHR 0x27] @ '')''"

text \<open>Line 68 logs \<open>payload.issue.number\<close> and \<open>payload.issue.title\<close>: a \<open>TypeError\<close> when
  \<open>payload.issue\<close> is \<open>null\<close>.  (\<open>undefined\<close> does not get here: \<open>isIssueOpenedEvent\<close> has
  rejected it.)\<close>

definition log_issue_opened :: "GitHubWebhookPayload \<Rightarrow> error + unit" where
  "log_issue_opened payload =
     (case payload_issue payload of
        Value i \<Rightarrow> Inr ()
      | _ \<Rightarrow> Inl (TypeError (null_property_message ''number'')))"

text \<open>Line 134 logs \<open>claudeResult.result?.substring(0, 200) || 'No result'\<close>: a \<open>TypeError\<close>
  when \<open>claudeResult\<close> is \<open>null\<close>, or when its \<open>result\<close> is neither absent, \<open>null\<close> nor a
  string.\<close>

definition log_claude_result :: "json \<Rightarrow> (unit, 'w) remote" where
  "log_claude_result claudeResult =
     (if claudeResult = JNull then throw (TypeError ''Cannot read properties of null'')
      else
        case property ''result'' claudeResult of
          None \<Rightarrow> ret ()
        | Some JNull \<Rightarrow> ret ()
        | Some (JString s) \<Rightarrow> ret ()
        | Some j \<Rightarrow> throw (TypeError ''claudeResult.result?.substring is not a function''))"

definition with_preview :: "DaytonaWorkspace \<Rightarrow> PreviewInfo \<Rightarrow> DaytonaWorkspace" where
  "with_preview ws p =
     ws \<lparr> ws_previewUrl := Some (preview_url p), ws_previewToken := Some (preview_token p) \<rparr>"

text \<open>Steps 1 to 6 of the handler (lines 114 to 199): everything between the update to
  \<open>processing\<close> and the update to \<open>completed\<close>.  The run store is not touched here.\<close>

definition handler_steps ::
  "runtime \<Rightarrow> process_env \<Rightarrow> 'w daytona_sdk \<Rightarrow> ParsedIssue \<Rightarrow> string \<Rightarrow> (SandboxPair, 'w) remote"
  where
  "handler_steps rt env sdk parsedIssue anthropicApiKey =
     await (createSandboxPair env sdk parsedIssue anthropicApiKey) (\<lambda>sandboxPair.
     await (setupAndRunApp sdk (ws_id (before sandboxPair))
              (parsed_repositoryName parsedIssue)) (\<lambda>u.
     await (runClaudeCodeInSandbox rt sdk (ws_id (after sandboxPair))
              (parsed_repositoryName parsedIssue) (parsed_title parsedIssue)
              (parsed_body parsedIssue)) (\<lambda>claudeResult.
     await (log_claude_result claudeResult) (\<lambda>u.
     await (setupAndRunApp sdk (ws_id (after sandboxPair))
              (parsed_repositoryName parsedIssue)) (\<lambda>u.
     await (getPreviewUrl sdk (ws_id (before sandboxPair)) 3000) (\<lambda>beforePreview.
     await (getPreviewUrl sdk (ws_id (after sandboxPair)) 3000) (\<lambda>afterPreview.
     await (if \<not> truthy (GITHUB_TOKEN env) then ret ()
            else
              try_catch
                (await (createBranchAndPR rt sdk (ws_id (after sandboxPair))
                          (parsed_repositoryName parsedIssue)
                          (parsed_issueNumber parsedIssue)
                          (parsed_title parsedIssue)
                          (parsed_repositoryOwner parsedIssue)
                          (parsed_repositoryName parsedIssue)
                          (parsed_defaultBranch parsedIssue)
                          (the (GITHUB_TOKEN env))
                          (preview_url beforePreview) (preview_url afterPreview)
                          (preview_token beforePreview) (preview_token afterPreview))
                   (\<lambda>prResult. ret ()))
                (\<lambda>error. ret ())) (\<lambda>u.
     ret \<lparr> before = with_preview (before sandboxPair) beforePreview,
           after = with_preview (after sandboxPair) afterPreview \<rparr>))))))))"

definition summary :: "DaytonaWorkspace \<Rightarrow> SandboxSummary" where
  "summary ws =
     \<lparr> sum_id = ws_id ws, sum_name = ws_name ws, sum_previewUrl = ws_previewUrl ws,
       sum_previewToken = ws_previewToken ws \<rparr>"

text \<open>
  The handler takes the run store and the world and returns its response, the new run
  store, the new world and the remote calls it made.  Constructing the client
  (\<open>new DaytonaClient\<close>, which only builds the configuration of the SDK from an API key
  that is set) makes no call and is taken not to throw.
\<close>

definition handler ::
  "runtime \<Rightarrow> process_env \<Rightarrow> 'w daytona_sdk \<Rightarrow> http_request \<Rightarrow> db \<Rightarrow> 'w
     \<Rightarrow> http_response \<times> db \<times> 'w \<times> trace" where
  "handler rt env sdk req issues w =
     (if req_method req \<noteq> ''POST''
      then (respond 405 (ErrorBody ''Method not allowed''), issues, w, [])
      else if \<not> truthy (WEBHOOK_SECRET env)
      then (respond 500 (ErrorBody ''Server configuration error''), issues, w, [])
      else
       (case req_rawBody req of
          Inl e \<Rightarrow> (internal_server_error e, issues, w, [])
        | Inr rawBody \<Rightarrow>
       (case verifyGitHubSignature rt rawBody (req_signature req) (the (WEBHOOK_SECRET env)) of
          Inl e \<Rightarrow> (internal_server_error e, issues, w, [])
        | Inr isValid \<Rightarrow>
        if \<not> isValid
        then (respond 401 (ErrorBody ''Invalid signature''), issues, w, [])
        else
       (case JSON_parse_payload rt rawBody of
          Inl e \<Rightarrow> (internal_server_error e, issues, w, [])
        | Inr payload \<Rightarrow>
        if \<not> isIssueOpenedEvent payload
        then (respond 200 (MessageBody ''Event ignored''), issues, w, [])
        else
       (case log_issue_opened payload of
          Inl e \<Rightarrow> (internal_server_error e, issues, w, [])
        | Inr u \<Rightarrow>
       (case parseIssue payload of
          Inl e \<Rightarrow> (internal_server_error e, issues, w, [])
        | Inr parsedIssue \<Rightarrow>
        if \<not> validateParsedIssue parsedIssue
        then (respond 400 (ErrorBody ''Invalid issue data''), issues, w, [])
        else
        let issueRecord =
              \<lparr> i_issueNumber = parsed_issueNumber parsedIssue,
                i_repositoryName = parsed_repositoryName parsedIssue,
                i_repositoryOwner = parsed_repositoryOwner parsedIssue,
                i_title = parsed_title parsedIssue,
                i_body = parsed_body parsedIssue,
                i_beforeWorkspaceId = None,
                i_afterWorkspaceId = None,
                i_status = Pending,
                i_createdAt = sdk_now sdk w,
                i_updatedAt = sdk_now sdk w \<rparr>;
            issues1 = saveIssue issueRecord issues
        in
        if \<not> truthy (DAYTONA_API_KEY env)
        then (respond 500 (ErrorBody ''Daytona API key not configured''),
              updateIssue (sdk_now sdk w) (parsed_issueNumber parsedIssue)
                (no_updates \<lparr> p_status := Some Failed \<rparr>) issues1, w, [])
        else if \<not> truthy (ANTHROPIC_API_KEY env)
        then (respond 500 (ErrorBody ''Anthropic API key not configured''),
              updateIssue (sdk_now sdk w) (parsed_issueNumber parsedIssue)
                (no_updates \<lparr> p_status := Some Failed \<rparr>) issues1, w, [])
        else
        let issues2 =
              updateIssue (sdk_now sdk w) (parsed_issueNumber parsedIssue)
                (no_updates \<lparr> p_status := Some Processing \<rparr>) issues1
        in
       (case handler_steps rt env sdk parsedIssue (the (ANTHROPIC_API_KEY env)) w of
          (Inl e, w', t) \<Rightarrow> (internal_server_error e, issues2, w', t)
        | (Inr sandboxPair, w', t) \<Rightarrow>
            (respond 200
               (ProcessedBody ''Issue processed successfully'' parsedIssue
                  (summary (before sandboxPair)) (summary (after sandboxPair))),
             updateIssue (sdk_now sdk w') (parsed_issueNumber parsedIssue)
               (no_updates \<lparr> p_beforeWorkspaceId := Some (ws_id (before sandboxPair)),
                              p_afterWorkspaceId := Some (ws_id (after sandboxPair)),
                              p_status := Some Completed \<rparr>) issues2,
             w', t))))))))"

section \<open>Reasoning about remote computations\<close>

definition outcome :: "(error + 'a) \<times> 'w \<times> trace \<Rightarrow> error + 'a" where
  "outcome r = fst r"

definition trace_of :: "(error + 'a) \<times> 'w \<times> trace \<Rightarrow> trace" where
  "trace_of r = snd (snd r)"

text \<open>\<open>ensures m Q\<close>: in every world, the outcome of \<open>m\<close> and the calls it made satisfy
  \<open>Q\<close>.\<close>

definition ensures :: "('a, 'w) remote \<Rightarrow> ((error + 'a) \<Rightarrow> trace \<Rightarrow> bool) \<Rightarrow> bool" where
  "ensures m Q = (\<forall>w. Q (outcome (m w)) (trace_of (m w)))"

lemma ensuresD: "ensures m Q \<Longrightarrow> Q (outcome (m w)) (trace_of (m w))"
  by (simp add: ensures_def)

lemma ensures_result: "ensures m Q \<Longrightarrow> m w = (r, w', t) \<Longrightarrow> Q r t"
  by (auto simp: ensures_def outcome_def trace_of_def dest!: spec [of _ w])

lemma ensures_ret: "Q (Inr x) [] \<Longrightarrow> ensures (ret x) Q"
  by (simp add: ensures_def ret_def outcome_def trace_of_def)

lemma ensures_throw: "Q (Inl e) [] \<Longrightarrow> ensures (throw e) Q"
  by (simp add: ensures_def throw_def outcome_def trace_of_def)

lemma ensures_call:
  "(\<And>e. Q (Inl e) [(rq, Inl e)]) \<Longrightarrow> (\<And>x. Q (Inr x) [(rq, Inr (mk x))])
   \<Longrightarrow> ensures (call rq mk f) Q"
  by (auto simp: ensures_def call_def outcome_def trace_of_def split: prod.splits sum.splits)

lemma ensures_await:
  "ensures m (\<lambda>r t. case r of Inl e \<Rightarrow> Q (Inl e) t
                   | Inr x \<Rightarrow> ensures (f x) (\<lambda>r' t'. Q r' (t @ t')))
   \<Longrightarrow> ensures (await m f) Q"
  by (auto simp: ensures_def await_def outcome_def trace_of_def split: prod.splits sum.splits)
     (metis fst_conv snd_conv sum.simps(5,6))+

lemma ensures_try_catch:
  "ensures m (\<lambda>r t. case r of Inl e \<Rightarrow> ensures (h e) (\<lambda>r' t'. Q r' (t @ t'))
                   | Inr x \<Rightarrow> Q (Inr x) t)
   \<Longrightarrow> ensures (try_catch m h) Q"
  by (auto simp: ensures_def try_catch_def outcome_def trace_of_def split: prod.splits sum.splits)
     (metis fst_conv snd_conv sum.simps(5,6))+

lemma ensures_if:
  "(c \<Longrightarrow> ensures a Q) \<Longrightarrow> (\<not> c \<Longrightarrow> ensures b Q) \<Longrightarrow> ensures (if c then a else b) Q"
  by simp

lemma ensures_date_now: "(\<And>n. Q (Inr n) []) \<Longrightarrow> ensures (date_now sdk) Q"
  by (simp add: ensures_def date_now_def outcome_def trace_of_def)

lemma ensures_weaken: "ensures m P \<Longrightarrow> (\<And>r t. P r t \<Longrightarrow> Q r t) \<Longrightarrow> ensures m Q"
  by (simp add: ensures_def)

lemma ensures_await_spec:
  "ensures m P \<Longrightarrow> (\<And>e t. P (Inl e) t \<Longrightarrow> Q (Inl e) t)
   \<Longrightarrow> (\<And>x t. P (Inr x) t \<Longrightarrow> ensures (f x) (\<lambda>r' t'. Q r' (t @ t')))
   \<Longrightarrow> ensures (await m f) Q"
  by (rule ensures_await, erule ensures_weaken) (auto split: sum.splits)

lemmas ensures_rules = ensures_await ensures_try_catch ensures_call ensures_if ensures_ret
  ensures_throw ensures_date_now

lemmas sdk_defs = daytona_create_def daytona_get_def getWorkDir_def executeCommand_def
  git_clone_def getPreviewLink_def uploadFile_def

lemmas remote_defs = await_def try_catch_def call_def ret_def throw_def date_now_def

lemma await_Inl: "m w = (Inl e, w', t) \<Longrightarrow> await m f w = (Inl e, w', t)"
  by (simp add: await_def)

lemma await_Inr:
  "m w = (Inr x, w', t) \<Longrightarrow> await m f w = (case f x w' of (r, w'', t') \<Rightarrow> (r, w'', t @ t'))"
  by (simp add: await_def)

lemma try_catch_rethrow: "try_catch m (\<lambda>e. throw e) = m"
  by (rule ext) (auto simp: try_catch_def throw_def split: prod.splits sum.splits)

section \<open>A remote world for worked examples\<close>

text \<open>
  A world whose state is a clock that every remote call advances by one.  Sandboxes get
  the id \<open>sb-<name>\<close>; \<open>create_error\<close> says which creations are rejected and \<open>exec\<close> what a
  command resolves to or rejects with.  The progress timer makes one process check while
  an agent command is pending.
\<close>

definition example_sdk ::
  "(CreateOptions \<Rightarrow> error option) \<Rightarrow> (string \<Rightarrow> error + ExecuteResponse) \<Rightarrow> int daytona_sdk" where
  "example_sdk create_error exec =
     \<lparr> sdk_create = (\<lambda>opts w.
         (case create_error opts of
            Some e \<Rightarrow> Inl e
          | None \<Rightarrow> Inr \<lparr> sandbox_id = ''sb-'' @ co_name opts, sandbox_name = co_name opts,
                         sandbox_state = ''started'' \<rparr>, w + 1)),
       sdk_get = (\<lambda>sandboxId w.
         (Inr \<lparr> sandbox_id = sandboxId, sandbox_name = drop 3 sandboxId,
                sandbox_state = ''started'' \<rparr>, w + 1)),
       sdk_getWorkDir = (\<lambda>sandbox w. (Inr ''/home/daytona'', w + 1)),
       sdk_executeCommand = (\<lambda>sandbox command cwd timeout w. (exec command, w + 1)),
       sdk_clone = (\<lambda>sandbox repoUrl path credentials w. (Inr (), w + 1)),
       sdk_getPreviewLink = (\<lambda>sandbox port w.
         (Inr \<lparr> preview_url = ''https://3000-'' @ sandbox_id sandbox @ ''.proxy.daytona.work'',
                preview_token = ''token-'' @ sandbox_id sandbox \<rparr>, w + 1)),
       sdk_uploadFile = (\<lambda>sandbox content path w. (Inr (), w + 1)),
       sdk_now = (\<lambda>w. w),
       sdk_progressChecks = (\<lambda>w. 1) \<rparr>"

definition example_env :: process_env where
  "example_env =
     \<lparr> WEBHOOK_SECRET = Some ''s3cret'', DAYTONA_API_KEY = Some ''dtn_key'',
       DAYTONA_API_URL = None, ANTHROPIC_API_KEY = Some ''sk-ant-key'',
       GITHUB_TOKEN = None \<rparr>"

definition example_issue :: ParsedIssue where
  "example_issue =
     \<lparr> parsed_issueNumber = 42, parsed_title = ''Button not clickable'',
       parsed_body = ''click does nothing'',
       parsed_repositoryUrl = ''https://github.com/acme/shop'',
       parsed_repositoryName = ''shop'', parsed_repositoryOwner = ''acme'',
       parsed_cloneUrl = ''https://github.com/acme/shop.git'',
       parsed_defaultBranch = ''main'',
       parsed_issueUrl = ''https://github.com/acme/shop/issues/42'' \<rparr>"

definition example_runtime :: runtime where
  "example_runtime =
     \<lparr> hmac_sha256 = (\<lambda>key data. 0), base64 = (\<lambda>s. s), JSON_stringify = (\<lambda>s. s),
       JSON_parse = (\<lambda>s. None),
       JSON_parse_payload = (\<lambda>s. Inl (SyntaxError ''Unexpected end of JSON input'')),
       unicode_lower = (\<lambda>s. s) \<rparr>"

definition exec_ok :: "string \<Rightarrow> error + ExecuteResponse" where
  "exec_ok command = Inr \<lparr> exitCode = 0, exec_result = ''ok'' \<rparr>"

definition no_create_error :: "CreateOptions \<Rightarrow> error option" where
  "no_create_error opts = None"

text \<open>The provider rejects the creation of the sandbox labelled \<open>role\<close>.\<close>

definition quota_error :: "string \<Rightarrow> CreateOptions \<Rightarrow> error option" where
  "quota_error role opts =
     (if map_of (co_labels opts) ''type'' = Some role
      then Some (Error ''Total sandbox quota exceeded'') else None)"

lemmas example_defs = example_sdk_def example_env_def example_issue_def example_runtime_def
  exec_ok_def no_create_error_def quota_error_def

lemmas show_defs = show_int_def show_digits.simps digit_char_def

section \<open>Signature verification\<close>

lemma length_hex_of_nat: "length (hex_of_nat k n) = k"
  by (induction k arbitrary: n) auto

lemma length_hex_digest: "length (hex_digest x) = 64"
  by (simp add: hex_digest_def length_hex_of_nat)

lemma verify_missing_header: "verifyGitHubSignature rt payload None secret = Inr False"
  by (simp add: verifyGitHubSignature_def)

lemma verify_valid_signature:
  "verifyGitHubSignature rt payload
     (Some (''sha256='' @ hex_digest (hmac_sha256 rt secret payload))) secret = Inr True"
  by (simp add: verifyGitHubSignature_def timingSafeEqual_def Let_def)

lemma verify_wrong_signature_same_length:
  "length s = 71 \<Longrightarrow> s \<noteq> ''sha256='' @ hex_digest (hmac_sha256 rt secret payload)
   \<Longrightarrow> verifyGitHubSignature rt payload (Some s) secret = Inr False"
  by (auto simp: verifyGitHubSignature_def timingSafeEqual_def Let_def length_hex_digest)

text \<open>
  Claim C2 says that \<open>verifyGitHubSignature\<close> always returns a boolean and never throws.
  It does return \<open>false\<close> on a missing header and \<open>true\<close> on the valid header (the lemmas
  above), but on a header that is present and whose length differs from the 71 bytes of
  \<open>sha256=<64 hex digits>\<close>, \<open>crypto.timingSafeEqual\<close> throws a \<open>RangeError\<close>: the function
  throws instead of returning \<open>false\<close>.
\<close>

theorem verify_throws_on_length_mismatch:
  "s \<noteq> [] \<Longrightarrow> length s \<noteq> 71 \<Longrightarrow>
   verifyGitHubSignature rt payload (Some s) secret
     = Inl (RangeError ''Input buffers must have the same byte length'')"
  by (simp add: verifyGitHubSignature_def timingSafeEqual_def Let_def length_hex_digest)

theorem verify_throws_on_length_mismatch_witness:
  "verifyGitHubSignature example_runtime ''{}'' (Some ''sha256=abc'') ''s3cret''
     = Inl (RangeError ''Input buffers must have the same byte length'')"
  using verify_throws_on_length_mismatch
          [of "''sha256=abc''" example_runtime "''{}''" "''s3cret''"]
  by simp

section \<open>Branch names\<close>

lemma replace_non_alnum_safe:
  "list_all (\<lambda>c. is_lower_alnum c \<or> c = CHR ''-'') (replace_non_alnum s)"
  by (induction s rule: replace_non_alnum.induct) auto

lemma strip_hyphens_subset: "set (strip_hyphens s) \<subseteq> set s"
  unfolding strip_hyphens_def
  by (auto dest!: set_dropWhileD)

lemma slug_safe:
  "list_all (\<lambda>c. is_lower_alnum c \<or> c = CHR ''-'')
     (take 50 (strip_hyphens (replace_non_alnum s)))"
proof -
  have "set (take 50 (strip_hyphens (replace_non_alnum s))) \<subseteq> set (replace_non_alnum s)"
    using set_take_subset strip_hyphens_subset by fastforce
  with replace_non_alnum_safe [of s] show ?thesis
    by (auto simp: list_all_iff)
qed

text \<open>
  Claim C7: the branch name is a total function of the issue number and the title.  For
  every title (whatever the Unicode lower-casing of the runtime does to it) it is
  \<open>autofix/issue-<number>-<slug>\<close> with a slug of at most 50 characters, each a lower-case
  letter, a digit or a hyphen; for issue 42 with title \<open>Button not clickable\<close> it is
  \<open>autofix/issue-42-button-not-clickable\<close>.
\<close>

theorem branch_name_safe_bounded:
  "(\<exists>slug. branchName_of rt n t = ''autofix/issue-'' @ show_int n @ ''-'' @ slug
       \<and> length slug \<le> 50
       \<and> list_all (\<lambda>c. is_lower_alnum c \<or> c = CHR ''-'') slug)
   \<and> branchName_of rt 42 ''Button not clickable'' = ''autofix/issue-42-button-not-clickable''"
proof
  show "\<exists>slug. branchName_of rt n t = ''autofix/issue-'' @ show_int n @ ''-'' @ slug
       \<and> length slug \<le> 50
       \<and> list_all (\<lambda>c. is_lower_alnum c \<or> c = CHR ''-'') slug"
    unfolding branchName_of_def using slug_safe by (intro exI conjI) (rule refl, simp, blast)
  show "branchName_of rt 42 ''Button not clickable'' = ''autofix/issue-42-button-not-clickable''"
    by code_simp
qed

text \<open>A title with capitals, punctuation, a leading hyphen and more than 50 characters.\<close>

theorem branch_name_safe_bounded_witness:
  "\<exists>slug. branchName_of example_runtime 7
       ''-- Crash: NullPointer in Checkout.submit() when the cart is EMPTY (v2.1)!''
     = ''autofix/issue-'' @ show_int 7 @ ''-'' @ slug
       \<and> length slug \<le> 50
       \<and> list_all (\<lambda>c. is_lower_alnum c \<or> c = CHR ''-'') slug"
  using branch_name_safe_bounded [of example_runtime 7
          "''-- Crash: NullPointer in Checkout.submit() when the cart is EMPTY (v2.1)!''"]
  by blast

section \<open>Sandbox pairs\<close>

fun is_create :: "request \<Rightarrow> bool" where
  "is_create (Create opts) = True"
| "is_create rq = False"

fun public_if_create :: "request \<Rightarrow> bool" where
  "public_if_create (Create opts) = co_public opts"
| "public_if_create rq = True"

text \<open>A request that creates the sandbox labelled \<open>role\<close> (\<open>before\<close> or \<open>after\<close>).\<close>

fun created_with_role :: "string \<Rightarrow> request \<Rightarrow> bool" where
  "created_with_role role (Create opts) = (map_of (co_labels opts) ''type'' = Some role)"
| "created_with_role role rq = False"

text \<open>The calls \<open>t\<close> start with the creation of a public sandbox of the given name and
  labels, and create no other sandbox.\<close>

definition creates_once :: "string \<Rightarrow> (string \<times> string) list \<Rightarrow> trace \<Rightarrow> bool" where
  "creates_once name labels t =
     (case t of
        [] \<Rightarrow> False
      | e # rest \<Rightarrow>
          (case fst e of
             Create opts \<Rightarrow> co_name opts = name \<and> co_labels opts = labels \<and> co_public opts
           | _ \<Rightarrow> False)
          \<and> list_all (\<lambda>e. \<not> is_create (fst e)) rest)"

lemma createAndSetupSandbox_creates_once:
  "ensures (createAndSetupSandbox env sdk issue name labels snap key)
     (\<lambda>r t. creates_once name labels t)"
  unfolding createAndSetupSandbox_def Let_def sdk_defs creates_once_def
  by (auto intro!: ensures_rules)

lemma creates_once_facts:
  assumes "creates_once name labels t"
  shows "list_all (\<lambda>e. public_if_create (fst e)) t"
    and "length (filter (\<lambda>e. is_create (fst e)) t) = 1"
    and "list_ex (\<lambda>e. is_create (fst e)) t"
    and "list_ex (\<lambda>e. created_with_role role (fst e)) t \<longleftrightarrow> map_of labels ''type'' = Some role"
proof -
  from assms obtain e rest opts where t: "t = e # rest" and e: "fst e = Create opts"
    and o: "co_name opts = name" "co_labels opts = labels" "co_public opts"
    and rest: "list_all (\<lambda>e. \<not> is_create (fst e)) rest"
    by (auto simp: creates_once_def split: list.splits request.splits)
  have np: "\<And>x. \<not> is_create x \<Longrightarrow> public_if_create x"
    by (case_tac x) auto
  have nr: "\<And>x. \<not> is_create x \<Longrightarrow> \<not> created_with_role role x"
    by (case_tac x) auto
  show "list_all (\<lambda>e. public_if_create (fst e)) t"
    using t e o rest np by (auto simp: list_all_iff)
  have "filter (\<lambda>e. is_create (fst e)) rest = []"
    using rest by (auto simp: list_all_iff filter_empty_conv)
  then show "length (filter (\<lambda>e. is_create (fst e)) t) = 1"
    using t e by simp
  show "list_ex (\<lambda>e. is_create (fst e)) t" using t e by simp
  show "list_ex (\<lambda>e. created_with_role role (fst e)) t \<longleftrightarrow> map_of labels ''type'' = Some role"
    using t e o rest nr by (auto simp: list_all_iff list_ex_iff)
qed

lemma createSandboxPair_creates:
  "ensures (createSandboxPair env sdk issue key)
     (\<lambda>r t. list_all (\<lambda>e. public_if_create (fst e)) t
           \<and> list_ex (\<lambda>e. is_create (fst e)) t
           \<and> (case r of Inr pair \<Rightarrow> length (filter (\<lambda>e. is_create (fst e)) t) = 2
                        | Inl e \<Rightarrow> True))"
  unfolding createSandboxPair_def Let_def try_catch_rethrow
  apply (rule ensures_await, rule ensures_date_now, simp)
  apply (rule ensures_await_spec [OF createAndSetupSandbox_creates_once])
   apply (simp add: creates_once_facts)
  apply (rule ensures_await_spec [OF createAndSetupSandbox_creates_once])
   apply (simp add: creates_once_facts)
  apply (rule ensures_ret)
  apply (simp add: creates_once_facts)
  done

lemma example_pair_created:
  "\<exists>pair w' t. createSandboxPair example_env (example_sdk no_create_error exec_ok)
      example_issue ''sk-ant-key'' 1000 = (Inr pair, w', t)"
  by (simp add: createSandboxPair_def createAndSetupSandbox_def remote_defs sdk_defs
      example_defs Let_def)

text \<open>
  Claim C10: every sandbox that \<open>createSandboxPair\<close> creates is created with
  \<open>public: true\<close>.  In every world, each creation request it sends has the public flag
  set, it sends at least one, and when it returns a pair it has sent exactly two.
\<close>

theorem createSandboxPair_sandboxes_public:
  "list_all (\<lambda>e. public_if_create (fst e)) (trace_of (createSandboxPair env sdk issue key w))
   \<and> list_ex (\<lambda>e. is_create (fst e)) (trace_of (createSandboxPair env sdk issue key w))
   \<and> (case outcome (createSandboxPair env sdk issue key w) of
        Inr pair \<Rightarrow>
          length (filter (\<lambda>e. is_create (fst e))
                    (trace_of (createSandboxPair env sdk issue key w))) = 2
      | Inl e \<Rightarrow> True)"
  using ensuresD [OF createSandboxPair_creates, of env sdk issue key w] by simp

theorem createSandboxPair_sandboxes_public_witness:
  "list_all (\<lambda>e. public_if_create (fst e))
     (trace_of (createSandboxPair example_env (example_sdk no_create_error exec_ok)
        example_issue ''sk-ant-key'' 1000))
   \<and> length (filter (\<lambda>e. is_create (fst e))
        (trace_of (createSandboxPair example_env (example_sdk no_create_error exec_ok)
           example_issue ''sk-ant-key'' 1000))) = 2"
  using createSandboxPair_sandboxes_public
          [of example_env "example_sdk no_create_error exec_ok" example_issue
              "''sk-ant-key''" 1000]
        example_pair_created
  by (auto simp: outcome_def)

text \<open>The names \<open>createSandboxPair\<close> gives the two sandboxes.\<close>

definition pair_name :: "ParsedIssue \<Rightarrow> string \<Rightarrow> int \<Rightarrow> string" where
  "pair_name issue role timestamp =
     ''issue-'' @ show_int (parsed_issueNumber issue) @ ''-'' @ role @ ''-'' @ show_int timestamp"

lemma createSandboxPair_unfold:
  "createSandboxPair env sdk issue key w =
     await (createAndSetupSandbox env sdk issue (pair_name issue ''before'' (sdk_now sdk w))
              (pair_labels issue ''before'') True None) (\<lambda>beforeResult.
     await (createAndSetupSandbox env sdk issue (pair_name issue ''after'' (sdk_now sdk w))
              (pair_labels issue ''after'') True (Some key)) (\<lambda>afterResult.
     ret \<lparr> before = snd beforeResult, after = snd afterResult \<rparr>)) w"
  by (simp add: createSandboxPair_def try_catch_rethrow pair_name_def Let_def
      await_def date_now_def split: prod.splits sum.splits)

text \<open>
  Claim C4 says that when the AFTER creation fails after the BEFORE sandbox was created,
  the BEFORE handle is still surfaced to the caller as a partial result.  The code does
  the first half of the claim and not the second: \<open>createSandboxPair\<close> awaits the two
  creations in one \<open>try\<close> whose \<open>catch\<close> logs and rethrows.  As amended: if creating and
  setting up the BEFORE sandbox fails, the pair fails with that error and no AFTER
  creation is requested; if BEFORE succeeds and AFTER fails, the pair fails with the error
  of AFTER, and the caller receives that error only (the result carries no handle).
\<close>

theorem createSandboxPair_failure:
  "(createAndSetupSandbox env sdk issue (pair_name issue ''before'' (sdk_now sdk w))
        (pair_labels issue ''before'') True None w = (Inl e, w1, t1)
      \<longrightarrow> createSandboxPair env sdk issue key w = (Inl e, w1, t1)
          \<and> \<not> list_ex (\<lambda>c. created_with_role ''after'' (fst c)) t1)
   \<and> (createAndSetupSandbox env sdk issue (pair_name issue ''before'' (sdk_now sdk w))
        (pair_labels issue ''before'') True None w = (Inr b, w1, t1)
      \<and> createAndSetupSandbox env sdk issue (pair_name issue ''after'' (sdk_now sdk w))
        (pair_labels issue ''after'') True (Some key) w1 = (Inl e, w2, t2)
      \<longrightarrow> createSandboxPair env sdk issue key w = (Inl e, w2, t1 @ t2))"
proof (intro conjI impI)
  assume b: "createAndSetupSandbox env sdk issue (pair_name issue ''before'' (sdk_now sdk w))
        (pair_labels issue ''before'') True None w = (Inl e, w1, t1)"
  then show "createSandboxPair env sdk issue key w = (Inl e, w1, t1)"
    by (simp add: createSandboxPair_unfold await_Inl)
  from ensures_result [OF createAndSetupSandbox_creates_once b]
  have "creates_once (pair_name issue ''before'' (sdk_now sdk w)) (pair_labels issue ''before'') t1" .
  from creates_once_facts(4) [OF this, of "''after''"]
  show "\<not> list_ex (\<lambda>c. created_with_role ''after'' (fst c)) t1"
    by (simp add: pair_labels_def)
next
  assume "createAndSetupSandbox env sdk issue (pair_name issue ''before'' (sdk_now sdk w))
        (pair_labels issue ''before'') True None w = (Inr b, w1, t1)
      \<and> createAndSetupSandbox env sdk issue (pair_name issue ''after'' (sdk_now sdk w))
        (pair_labels issue ''after'') True (Some key) w1 = (Inl e, w2, t2)"
  then show "createSandboxPair env sdk issue key w = (Inl e, w2, t1 @ t2)"
    by (simp add: createSandboxPair_unfold await_Inr await_Inl)
qed

lemma example_before_rejected:
  "createAndSetupSandbox example_env (example_sdk (quota_error ''before'') exec_ok) example_issue
     (pair_name example_issue ''before'' 1000) (pair_labels example_issue ''before'') True None 1000
   = (Inl (Error ''Total sandbox quota exceeded''), 1001,
      [(Create \<lparr> co_name = ''issue-42-before-1000'',
                 co_labels = pair_labels example_issue ''before'',
                 co_public = True, co_snapshot = Some ''claude-code-bugfixer:1.0.0'',
                 co_envVars = None \<rparr>,
        Inl (Error ''Total sandbox quota exceeded''))])"
  by (simp add: createAndSetupSandbox_def remote_defs sdk_defs example_defs Let_def
      pair_labels_def pair_name_def show_defs CLAUDE_SNAPSHOT_NAME_def)

definition example_before_sandbox :: Sandbox where
  "example_before_sandbox =
     \<lparr> sandbox_id = ''sb-issue-42-before-1000'', sandbox_name = ''issue-42-before-1000'',
       sandbox_state = ''started'' \<rparr>"

definition example_before_workspace :: DaytonaWorkspace where
  "example_before_workspace =
     \<lparr> ws_id = ''sb-issue-42-before-1000'', ws_name = ''issue-42-before-1000'',
       ws_project_name = ''shop'', ws_repository_url = ''https://github.com/acme/shop.git'',
       ws_ideUrl = None, ws_status = Some ''started'',
       ws_previewUrl = Some ''https://3000-sb-issue-42-before-1000.proxy.daytona.work'',
       ws_previewToken = Some ''token-sb-issue-42-before-1000'' \<rparr>"

definition example_before_trace :: trace where
  "example_before_trace =
     [(Create \<lparr> co_name = ''issue-42-before-1000'',
                co_labels = pair_labels example_issue ''before'',
                co_public = True, co_snapshot = Some ''claude-code-bugfixer:1.0.0'',
                co_envVars = None \<rparr>,
       Inr (ReplySandbox example_before_sandbox)),
      (ExecuteCommand ''sb-issue-42-before-1000''
         ''id claude || useradd -m -s /bin/bash claude'' None None,
       Inr (ReplyExec \<lparr> exitCode = 0, exec_result = ''ok'' \<rparr>)),
      (GetWorkDir ''sb-issue-42-before-1000'', Inr (ReplyString ''/home/daytona'')),
      (GitClone ''sb-issue-42-before-1000'' ''https://github.com/acme/shop.git''
         ''/home/daytona/shop'' None, Inr ReplyUnit),
      (GetPreviewLink ''sb-issue-42-before-1000'' 3000,
       Inr (ReplyPreview
         \<lparr> preview_url = ''https://3000-sb-issue-42-before-1000.proxy.daytona.work'',
           preview_token = ''token-sb-issue-42-before-1000'' \<rparr>))]"

definition example_after_rejected :: "request \<times> (error + reply)" where
  "example_after_rejected =
     (Create \<lparr> co_name = ''issue-42-after-1000'',
                co_labels = pair_labels example_issue ''after'',
                co_public = True, co_snapshot = Some ''claude-code-bugfixer:1.0.0'',
                co_envVars = Some [(''ANTHROPIC_API_KEY'', ''sk-ant-key'')] \<rparr>,
      Inl (Error ''Total sandbox quota exceeded''))"

lemma example_before_created:
  "createAndSetupSandbox example_env (example_sdk (quota_error ''after'') exec_ok) example_issue
     (pair_name example_issue ''before'' 1000) (pair_labels example_issue ''before'') True None 1000
   = (Inr (example_before_sandbox, example_before_workspace), 1005, example_before_trace)"
  by (simp add: createAndSetupSandbox_def remote_defs sdk_defs example_defs Let_def
      pair_labels_def pair_name_def show_defs CLAUDE_SNAPSHOT_NAME_def repoPath_of_def
      example_before_sandbox_def example_before_workspace_def example_before_trace_def)

lemma example_after_rejected:
  "createAndSetupSandbox example_env (example_sdk (quota_error ''after'') exec_ok) example_issue
     (pair_name example_issue ''after'' 1000) (pair_labels example_issue ''after'') True
     (Some ''sk-ant-key'') 1005
   = (Inl (Error ''Total sandbox quota exceeded''), 1006, [example_after_rejected])"
  by (simp add: createAndSetupSandbox_def remote_defs sdk_defs example_defs Let_def
      pair_labels_def pair_name_def show_defs CLAUDE_SNAPSHOT_NAME_def
      example_after_rejected_def)

lemma example_sdk_now: "sdk_now (example_sdk c x) w = w"
  by (simp add: example_sdk_def)

theorem createSandboxPair_failure_witness:
  "createSandboxPair example_env (example_sdk (quota_error ''before'') exec_ok) example_issue
      ''sk-ant-key'' 1000
     = (Inl (Error ''Total sandbox quota exceeded''), 1001,
        [(Create \<lparr> co_name = ''issue-42-before-1000'',
                   co_labels = pair_labels example_issue ''before'',
                   co_public = True, co_snapshot = Some ''claude-code-bugfixer:1.0.0'',
                   co_envVars = None \<rparr>,
          Inl (Error ''Total sandbox quota exceeded''))])
   \<and> createSandboxPair example_env (example_sdk (quota_error ''after'') exec_ok) example_issue
      ''sk-ant-key'' 1000
     = (Inl (Error ''Total sandbox quota exceeded''), 1006,
        example_before_trace @ [example_after_rejected])"
  using createSandboxPair_failure
          [where env = example_env and sdk = "example_sdk (quota_error ''before'') exec_ok"
             and issue = example_issue and w = 1000 and key = "''sk-ant-key''"
             and e = "Error ''Total sandbox quota exceeded''" and ?w1.0 = 1001]
        createSandboxPair_failure
          [where env = example_env and sdk = "example_sdk (quota_error ''after'') exec_ok"
             and issue = example_issue and w = 1000 and key = "''sk-ant-key''"
             and e = "Error ''Total sandbox quota exceeded''"
             and b = "(example_before_sandbox, example_before_workspace)" and ?w1.0 = 1005
             and ?t1.0 = example_before_trace and ?w2.0 = 1006
             and ?t2.0 = "[example_after_rejected]"]
        example_before_rejected example_before_created example_after_rejected
  by (simp add: example_sdk_now)

text \<open>The failing case of claim C4 as stated: the BEFORE sandbox is created, the provider
  rejects the AFTER creation, and the caller gets the error and nothing else.\<close>

theorem createSandboxPair_discards_before_handle:
  "outcome (createSandboxPair example_env (example_sdk (quota_error ''after'') exec_ok)
      example_issue ''sk-ant-key'' 1000) = Inl (Error ''Total sandbox quota exceeded'')
   \<and> (Create \<lparr> co_name = ''issue-42-before-1000'',
                co_labels = pair_labels example_issue ''before'',
                co_public = True, co_snapshot = Some ''claude-code-bugfixer:1.0.0'',
                co_envVars = None \<rparr>,
       Inr (ReplySandbox example_before_sandbox))
     \<in> set (trace_of (createSandboxPair example_env
           (example_sdk (quota_error ''after'') exec_ok) example_issue ''sk-ant-key'' 1000))"
  using example_before_created example_after_rejected
  by (simp add: createSandboxPair_unfold example_sdk_now await_Inr await_Inl outcome_def
      trace_of_def example_before_trace_def)

section \<open>The agent run\<close>

text \<open>Requests are told apart by the fixed text their command starts with.\<close>

fun command_of :: "request \<Rightarrow> string option" where
  "command_of (ExecuteCommand sandboxId command cwd timeout) = Some command"
| "command_of rq = None"

definition runs :: "string \<Rightarrow> request \<Rightarrow> bool" where
  "runs prefix rq = (case command_of rq of Some command \<Rightarrow> startsWith prefix command | None \<Rightarrow> False)"

definition is_agent_command :: "request \<Rightarrow> bool" where
  "is_agent_command rq = runs ''su claude -c '' rq"

definition is_ownership_grant :: "request \<Rightarrow> bool" where
  "is_ownership_grant rq = runs ''chown -R claude:claude '' rq"

definition is_ownership_revert :: "request \<Rightarrow> bool" where
  "is_ownership_revert rq = runs ''chown -R root:root '' rq"

definition agent_outcomes :: "trace \<Rightarrow> (error + reply) list" where
  "agent_outcomes t = map snd (filter (\<lambda>c. is_agent_command (fst c)) t)"

definition revert_issued :: "trace \<Rightarrow> bool" where
  "revert_issued t = list_ex (\<lambda>c. is_ownership_revert (fst c)) t"

lemmas command_defs = is_agent_command_def is_ownership_grant_def is_ownership_revert_def
  runs_def chown_claude_def chown_root_def claudeCommand_def

text \<open>The process checks of the progress timer are neither agent commands nor changes
  of ownership, and the timer does not throw.\<close>

definition process_checks_only :: "trace \<Rightarrow> bool" where
  "process_checks_only t = list_all (\<lambda>c. command_of (fst c) = Some process_check_command) t"

lemma process_check_ensures:
  "ensures (process_check sdk sandbox) (\<lambda>r t. r = Inr () \<and> process_checks_only t)"
  unfolding process_check_def executeCommand_def process_checks_only_def
  by (auto intro!: ensures_rules)

lemma progress_checks_ensures:
  "ensures (progress_checks sdk sandbox n) (\<lambda>r t. r = Inr () \<and> process_checks_only t)"
proof (induction n)
  case 0
  show ?case by (simp add: ensures_ret process_checks_only_def)
next
  case (Suc n)
  show ?case
    unfolding progress_checks.simps
  proof (rule ensures_await_spec [OF process_check_ensures])
    fix e t
    assume "Inl e = Inr () \<and> process_checks_only t"
    then show "Inl e = Inr () \<and> process_checks_only t" by simp
  next
    fix x :: unit and t
    assume "Inr x = Inr () \<and> process_checks_only t"
    then have t: "process_checks_only t" by simp
    show "ensures (progress_checks sdk sandbox n)
            (\<lambda>r' t'. r' = Inr () \<and> process_checks_only (t @ t'))"
      using t by (intro ensures_weaken [OF Suc.IH]) (simp add: process_checks_only_def)
  qed
qed

lemma ensures_progress_timer:
  "(\<And>t. process_checks_only t \<Longrightarrow> Q (Inr ()) t) \<Longrightarrow> ensures (progress_timer sdk sandbox) Q"
  using progress_checks_ensures [of sdk sandbox]
  by (simp add: ensures_def progress_timer_def)

lemma process_checks_filter:
  assumes "process_checks_only t" and "\<not> startsWith p process_check_command"
  shows "filter (\<lambda>c. runs p (fst c)) t = []" and "\<not> list_ex (\<lambda>c. runs p (fst c)) t"
  using assms
  by (induction t) (auto simp: process_checks_only_def runs_def)

lemma process_checks_not_agent:
  assumes "process_checks_only t"
  shows "filter (\<lambda>c. is_agent_command (fst c)) t = []"
    and "\<not> list_ex (\<lambda>c. is_ownership_revert (fst c)) t"
    and "\<not> list_ex (\<lambda>c. is_ownership_grant (fst c)) t"
  unfolding is_agent_command_def is_ownership_revert_def is_ownership_grant_def
  by (rule process_checks_filter [OF assms], simp add: process_check_command_def)+

lemma runClaudeCodeInSandbox_cases:
  "ensures (runClaudeCodeInSandbox rt sdk sandboxId repoName issueTitle issueBody)
     (\<lambda>r t. (agent_outcomes t = [] \<and> (\<exists>e. r = Inl e) \<and> \<not> revert_issued t)
          \<or> (\<exists>e. agent_outcomes t = [Inl e] \<and> r = Inl e \<and> \<not> revert_issued t)
          \<or> (\<exists>response. agent_outcomes t = [Inr (ReplyExec response)]
                \<and> r = Inr (parse_claude_output rt response) \<and> revert_issued t))"
  unfolding runClaudeCodeInSandbox_def Let_def sdk_defs
  by (auto intro!: ensures_rules ensures_progress_timer
      simp: agent_outcomes_def revert_issued_def command_defs
        process_checks_not_agent
          [unfolded is_agent_command_def is_ownership_revert_def is_ownership_grant_def
             runs_def])

lemma agent_outcome_mem:
  "(rq, out) \<in> set t \<Longrightarrow> is_agent_command rq \<Longrightarrow> out \<in> set (agent_outcomes t)"
  by (force simp: agent_outcomes_def)

lemma runClaudeCodeInSandbox_result:
  assumes "(rq, out) \<in> set (trace_of (runClaudeCodeInSandbox rt sdk sandboxId repoName issueTitle issueBody w))"
    and "is_agent_command rq"
  shows "case out of
           Inl e \<Rightarrow>
             outcome (runClaudeCodeInSandbox rt sdk sandboxId repoName issueTitle issueBody w) = Inl e
             \<and> \<not> revert_issued (trace_of (runClaudeCodeInSandbox rt sdk sandboxId repoName issueTitle issueBody w))
         | Inr rp \<Rightarrow>
             (\<exists>response. rp = ReplyExec response
                \<and> outcome (runClaudeCodeInSandbox rt sdk sandboxId repoName issueTitle issueBody w)
                    = Inr (parse_claude_output rt response))
             \<and> revert_issued (trace_of (runClaudeCodeInSandbox rt sdk sandboxId repoName issueTitle issueBody w))"
proof -
  let ?R = "runClaudeCodeInSandbox rt sdk sandboxId repoName issueTitle issueBody w"
  have mem: "out \<in> set (agent_outcomes (trace_of ?R))"
    using assms by (rule agent_outcome_mem)
  have "(agent_outcomes (trace_of ?R) = [] \<and> (\<exists>e. outcome ?R = Inl e)
            \<and> \<not> revert_issued (trace_of ?R))
          \<or> (\<exists>e. agent_outcomes (trace_of ?R) = [Inl e] \<and> outcome ?R = Inl e
                \<and> \<not> revert_issued (trace_of ?R))
          \<or> (\<exists>response. agent_outcomes (trace_of ?R) = [Inr (ReplyExec response)]
                \<and> outcome ?R = Inr (parse_claude_output rt response)
                \<and> revert_issued (trace_of ?R))"
    using ensuresD [OF runClaudeCodeInSandbox_cases] .
  with mem show ?thesis
    by (auto split: sum.splits)
qed

text \<open>
  Claim C6 says that the ownership granted to the agent account is reverted on every
  outcome, also when the agent command threw.  The code reverts after the agent command
  has returned: the revert follows the \<open>try\<close> block, whose \<open>catch\<close> rethrows, and there is
  no \<open>finally\<close>.  As amended: whenever the agent command returns, with whatever exit code
  and output, the revert command is issued and the function returns normally; whenever
  the agent command throws (a timeout, a lost sandbox), the function rethrows that error
  and no revert command is issued.
\<close>

theorem ownership_reverted_only_when_agent_returns:
  "((rq, Inr rp) \<in> set (trace_of (runClaudeCodeInSandbox rt sdk sandboxId repoName issueTitle issueBody w))
      \<and> is_agent_command rq
     \<longrightarrow> revert_issued (trace_of (runClaudeCodeInSandbox rt sdk sandboxId repoName issueTitle issueBody w))
        \<and> (\<exists>j. outcome (runClaudeCodeInSandbox rt sdk sandboxId repoName issueTitle issueBody w) = Inr j))
   \<and> ((rq, Inl e) \<in> set (trace_of (runClaudeCodeInSandbox rt sdk sandboxId repoName issueTitle issueBody w))
      \<and> is_agent_command rq
     \<longrightarrow> \<not> revert_issued (trace_of (runClaudeCodeInSandbox rt sdk sandboxId repoName issueTitle issueBody w))
        \<and> outcome (runClaudeCodeInSandbox rt sdk sandboxId repoName issueTitle issueBody w) = Inl e)"
  using runClaudeCodeInSandbox_result [of rq "Inr rp" rt sdk sandboxId repoName issueTitle issueBody w]
        runClaudeCodeInSandbox_result [of rq "Inl e" rt sdk sandboxId repoName issueTitle issueBody w]
  by auto

text \<open>The output holds no JSON payload that parses.\<close>

definition no_json_payload :: "runtime \<Rightarrow> string \<Rightarrow> bool" where
  "no_json_payload rt output =
     (case json_match output of None \<Rightarrow> True | Some jsonMatch \<Rightarrow> JSON_parse rt jsonMatch = None)"

lemma parse_claude_output_degraded:
  "no_json_payload rt (exec_result response) \<Longrightarrow>
   parse_claude_output rt response
     = degraded_result (exec_result response) (exitCode response)"
  by (auto simp: no_json_payload_def parse_claude_output_def Let_def split: option.splits)

lemma log_degraded_result: "log_claude_result (degraded_result output code) = ret ()"
  by (simp add: log_claude_result_def degraded_result_def)

lemma await_ret: "await (ret x) f = f x"
  by (rule ext) (simp add: await_def ret_def split: prod.splits)

lemma trace_of_await_Inr:
  "m w = (Inr x, w', t) \<Longrightarrow> trace_of (await m f w) = t @ trace_of (f x w')"
  by (simp add: await_def trace_of_def split: prod.splits)

lemma trace_of_await_prefix: "\<exists>rest. trace_of (await m f w) = trace_of (m w) @ rest"
  by (auto simp: await_def trace_of_def split: prod.splits sum.splits)

lemma trace_of_await_call: "\<exists>c rest. trace_of (await (call rq mk f) g w) = (rq, c) # rest"
  by (auto simp: await_def call_def trace_of_def split: prod.splits sum.splits)

lemma setupAndRunApp_starts_with_get:
  "\<exists>c rest. trace_of (setupAndRunApp sdk sandboxId repoName w) = (Get sandboxId, c) # rest"
  unfolding setupAndRunApp_def daytona_get_def by (rule trace_of_await_call)

lemma await_setupAndRunApp_starts_with_get:
  "\<exists>c rest. trace_of (await (setupAndRunApp sdk sandboxId repoName) f w)
     = (Get sandboxId, c) # rest"
  using setupAndRunApp_starts_with_get [of sdk sandboxId repoName w]
        trace_of_await_prefix [of "setupAndRunApp sdk sandboxId repoName" f w]
  by auto

lemma remote_result: "m w = (outcome (m w), fst (snd (m w)), trace_of (m w))"
  by (simp add: outcome_def trace_of_def)

lemma handler_steps_after_agent:
  assumes "createSandboxPair env sdk parsedIssue key w = (Inr pair, w1, t1)"
    and "setupAndRunApp sdk (ws_id (before pair)) (parsed_repositoryName parsedIssue) w1
           = (Inr u, w2, t2)"
    and "runClaudeCodeInSandbox rt sdk (ws_id (after pair)) (parsed_repositoryName parsedIssue)
           (parsed_title parsedIssue) (parsed_body parsedIssue) w2
           = (Inr (degraded_result output code), w3, t3)"
  shows "\<exists>c rest. trace_of (handler_steps rt env sdk parsedIssue key w)
           = t1 @ t2 @ t3 @ (Get (ws_id (after pair)), c) # rest"
  unfolding handler_steps_def
  apply (simp add:
        trace_of_await_Inr [where m = "createSandboxPair env sdk parsedIssue key" and w = w,
          OF assms(1)]
        trace_of_await_Inr [where m = "setupAndRunApp sdk (ws_id (before pair))
          (parsed_repositoryName parsedIssue)" and w = w1, OF assms(2)]
        trace_of_await_Inr [where m = "runClaudeCodeInSandbox rt sdk (ws_id (after pair))
          (parsed_repositoryName parsedIssue) (parsed_title parsedIssue)
          (parsed_body parsedIssue)" and w = w2, OF assms(3)]
        log_degraded_result await_ret)
  apply (rule await_setupAndRunApp_starts_with_get)
  done

lemma handler_steps_after_degraded_output:
  assumes "createSandboxPair env sdk parsedIssue key w = (Inr pair, w1, t1)"
    and "setupAndRunApp sdk (ws_id (before pair)) (parsed_repositoryName parsedIssue) w1
           = (Inr u, w2, t2)"
    and "(rq, Inr (ReplyExec response))
           \<in> set (trace_of (runClaudeCodeInSandbox rt sdk (ws_id (after pair))
                (parsed_repositoryName parsedIssue) (parsed_title parsedIssue)
                (parsed_body parsedIssue) w2))"
    and "is_agent_command rq" and "no_json_payload rt (exec_result response)"
  shows "\<exists>c rest. trace_of (handler_steps rt env sdk parsedIssue key w)
           = t1 @ t2
             @ trace_of (runClaudeCodeInSandbox rt sdk (ws_id (after pair))
                 (parsed_repositoryName parsedIssue) (parsed_title parsedIssue)
                 (parsed_body parsedIssue) w2)
             @ (Get (ws_id (after pair)), c) # rest"
proof -
  let ?R = "runClaudeCodeInSandbox rt sdk (ws_id (after pair))
      (parsed_repositoryName parsedIssue) (parsed_title parsedIssue) (parsed_body parsedIssue)"
  from runClaudeCodeInSandbox_result [OF assms(3) assms(4)]
  have "outcome (?R w2) = Inr (degraded_result (exec_result response) (exitCode response))"
    by (simp add: parse_claude_output_degraded [OF assms(5)])
  with remote_result [of ?R w2]
  have "?R w2 = (Inr (degraded_result (exec_result response) (exitCode response)),
      fst (snd (?R w2)), trace_of (?R w2))"
    by simp
  from handler_steps_after_agent [OF assms(1) assms(2) this] show ?thesis .
qed


fun succeeded :: "error + reply \<Rightarrow> bool" where
  "succeeded (Inr rp) = True"
| "succeeded (Inl e) = False"

text \<open>A world in which the agent command exceeds its timeout.\<close>

definition exec_agent_timeout :: "string \<Rightarrow> error + ExecuteResponse" where
  "exec_agent_timeout command =
     (if startsWith ''su claude -c '' command then Inl (Error ''Command execution timeout'')
      else exec_ok command)"

definition example_sandbox :: "string \<Rightarrow> Sandbox" where
  "example_sandbox sandboxId =
     \<lparr> sandbox_id = sandboxId, sandbox_name = drop 3 sandboxId, sandbox_state = ''started'' \<rparr>"

definition ok_reply :: "error + reply" where
  "ok_reply = Inr (ReplyExec \<lparr> exitCode = 0, exec_result = ''ok'' \<rparr>)"

definition example_agent_request :: "runtime \<Rightarrow> string \<Rightarrow> string \<Rightarrow> string \<Rightarrow> string \<Rightarrow> request" where
  "example_agent_request rt sandboxId repoName issueTitle issueBody =
     ExecuteCommand sandboxId
       (claudeCommand (''/home/daytona/'' @ repoName)
          (base64 rt (claude_prompt issueTitle issueBody)))
       (Some (''/home/daytona/'' @ repoName)) (Some 600000)"

definition example_agent_prefix :: "string \<Rightarrow> string \<Rightarrow> trace" where
  "example_agent_prefix sandboxId repoName =
     [(Get sandboxId, Inr (ReplySandbox (example_sandbox sandboxId))),
      (GetWorkDir sandboxId, Inr (ReplyString ''/home/daytona'')),
      (ExecuteCommand sandboxId (chown_claude (''/home/daytona/'' @ repoName)) None None,
       ok_reply),
      (ExecuteCommand sandboxId process_check_command None None, ok_reply)]"

lemma trim_nonempty_ok: "trim_nonempty ''ok''"
  by (simp add: trim_nonempty_def trimStart.simps space_length_def byte_def)

lemma json_match_ok: "json_match ''ok'' = None"
  by (simp add: json_match_def)

lemma example_agent_returns:
  "runClaudeCodeInSandbox rt (example_sdk ce exec_ok) sandboxId repoName issueTitle issueBody w
   = (Inr (degraded_result ''ok'' 0), w + 6,
      example_agent_prefix sandboxId repoName
      @ [(example_agent_request rt sandboxId repoName issueTitle issueBody, ok_reply),
         (ExecuteCommand sandboxId (chown_root (''/home/daytona/'' @ repoName)) None None,
          ok_reply)])"
  by (simp add: runClaudeCodeInSandbox_def remote_defs sdk_defs example_sdk_def exec_ok_def
      Let_def repoPath_of_def trim_nonempty_ok parse_claude_output_def json_match_ok
      example_agent_prefix_def example_agent_request_def example_sandbox_def ok_reply_def
      progress_timer_def process_check_def)

lemma example_agent_times_out:
  "runClaudeCodeInSandbox rt (example_sdk ce exec_agent_timeout) sandboxId repoName issueTitle
     issueBody w
   = (Inl (Error ''Command execution timeout''), w + 5,
      example_agent_prefix sandboxId repoName
      @ [(example_agent_request rt sandboxId repoName issueTitle issueBody,
          Inl (Error ''Command execution timeout''))])"
  by (simp add: runClaudeCodeInSandbox_def remote_defs sdk_defs example_sdk_def exec_ok_def
      exec_agent_timeout_def Let_def repoPath_of_def chown_claude_def claudeCommand_def
      example_agent_prefix_def example_agent_request_def example_sandbox_def ok_reply_def
      progress_timer_def process_check_def process_check_command_def)

lemma example_agent_request_is_agent:
  "is_agent_command (example_agent_request rt sandboxId repoName issueTitle issueBody)"
  by (simp add: example_agent_request_def command_defs)

lemma example_revert_facts:
  "\<not> revert_issued (example_agent_prefix sandboxId repoName)"
  "\<not> is_ownership_revert (example_agent_request rt sandboxId repoName issueTitle issueBody)"
  "is_ownership_revert
     (ExecuteCommand sandboxId (chown_root (''/home/daytona/'' @ repoName)) None None)"
  "list_ex (\<lambda>c. is_ownership_grant (fst c) \<and> succeeded (snd c))
     (example_agent_prefix sandboxId repoName)"
  by (simp_all add: example_agent_prefix_def example_agent_request_def command_defs
      revert_issued_def ok_reply_def process_check_command_def)

theorem ownership_reverted_only_when_agent_returns_witness:
  "revert_issued (trace_of (runClaudeCodeInSandbox example_runtime
       (example_sdk no_create_error exec_ok) ''sb-issue-42-after-1000'' ''shop''
       ''Button not clickable'' ''click does nothing'' 1016))
   \<and> outcome (runClaudeCodeInSandbox example_runtime
       (example_sdk no_create_error exec_ok) ''sb-issue-42-after-1000'' ''shop''
       ''Button not clickable'' ''click does nothing'' 1016) = Inr (degraded_result ''ok'' 0)
   \<and> \<not> revert_issued (trace_of (runClaudeCodeInSandbox example_runtime
       (example_sdk no_create_error exec_agent_timeout) ''sb-issue-42-after-1000'' ''shop''
       ''Button not clickable'' ''click does nothing'' 1016))
   \<and> outcome (runClaudeCodeInSandbox example_runtime
       (example_sdk no_create_error exec_agent_timeout) ''sb-issue-42-after-1000'' ''shop''
       ''Button not clickable'' ''click does nothing'' 1016)
     = Inl (Error ''Command execution timeout'')"
  using ownership_reverted_only_when_agent_returns
          [where rt = example_runtime and sdk = "example_sdk no_create_error exec_ok"
             and sandboxId = "''sb-issue-42-after-1000''" and repoName = "''shop''"
             and issueTitle = "''Button not clickable''" and issueBody = "''click does nothing''"
             and w = 1016
             and rq = "example_agent_request example_runtime ''sb-issue-42-after-1000''
                         ''shop'' ''Button not clickable'' ''click does nothing''"
             and rp = "ReplyExec \<lparr> exitCode = 0, exec_result = ''ok'' \<rparr>"]
        ownership_reverted_only_when_agent_returns
          [where rt = example_runtime and sdk = "example_sdk no_create_error exec_agent_timeout"
             and sandboxId = "''sb-issue-42-after-1000''" and repoName = "''shop''"
             and issueTitle = "''Button not clickable''" and issueBody = "''click does nothing''"
             and w = 1016
             and rq = "example_agent_request example_runtime ''sb-issue-42-after-1000''
                         ''shop'' ''Button not clickable'' ''click does nothing''"
             and e = "Error ''Command execution timeout''"]
  by (simp add: example_agent_returns example_agent_times_out trace_of_def outcome_def
      example_agent_request_is_agent ok_reply_def)

text \<open>The failing case of claim C6 as stated: ownership is granted, the agent command
  times out, and no revert is issued.\<close>

theorem ownership_not_reverted_after_timeout:
  "list_ex (\<lambda>c. is_ownership_grant (fst c) \<and> succeeded (snd c))
     (trace_of (runClaudeCodeInSandbox example_runtime
        (example_sdk no_create_error exec_agent_timeout) ''sb-issue-42-after-1000'' ''shop''
        ''Button not clickable'' ''click does nothing'' 1016))
   \<and> agent_outcomes (trace_of (runClaudeCodeInSandbox example_runtime
        (example_sdk no_create_error exec_agent_timeout) ''sb-issue-42-after-1000'' ''shop''
        ''Button not clickable'' ''click does nothing'' 1016))
       = [Inl (Error ''Command execution timeout'')]
   \<and> \<not> revert_issued (trace_of (runClaudeCodeInSandbox example_runtime
        (example_sdk no_create_error exec_agent_timeout) ''sb-issue-42-after-1000'' ''shop''
        ''Button not clickable'' ''click does nothing'' 1016))"
  by (simp add: example_agent_times_out trace_of_def agent_outcomes_def revert_issued_def
      example_agent_prefix_def example_agent_request_def command_defs ok_reply_def
      process_check_command_def)


definition before_options :: CreateOptions where
  "before_options =
     \<lparr> co_name = ''issue-42-before-1000'', co_labels = pair_labels example_issue ''before'',
       co_public = True, co_snapshot = Some ''claude-code-bugfixer:1.0.0'',
       co_envVars = None \<rparr>"

definition after_options :: CreateOptions where
  "after_options =
     \<lparr> co_name = ''issue-42-after-1000'', co_labels = pair_labels example_issue ''after'',
       co_public = True, co_snapshot = Some ''claude-code-bugfixer:1.0.0'',
       co_envVars = Some [(''ANTHROPIC_API_KEY'', ''sk-ant-key'')] \<rparr>"

definition example_after_sandbox :: Sandbox where
  "example_after_sandbox =
     \<lparr> sandbox_id = ''sb-issue-42-after-1000'', sandbox_name = ''issue-42-after-1000'',
       sandbox_state = ''started'' \<rparr>"

definition example_after_workspace :: DaytonaWorkspace where
  "example_after_workspace =
     \<lparr> ws_id = ''sb-issue-42-after-1000'', ws_name = ''issue-42-after-1000'',
       ws_project_name = ''shop'', ws_repository_url = ''https://github.com/acme/shop.git'',
       ws_ideUrl = None, ws_status = Some ''started'',
       ws_previewUrl = Some ''https://3000-sb-issue-42-after-1000.proxy.daytona.work'',
       ws_previewToken = Some ''token-sb-issue-42-after-1000'' \<rparr>"

definition example_after_trace :: trace where
  "example_after_trace =
     [(Create after_options, Inr (ReplySandbox example_after_sandbox)),
      (ExecuteCommand ''sb-issue-42-after-1000''
         ''id claude || useradd -m -s /bin/bash claude'' None None, ok_reply),
      (GetWorkDir ''sb-issue-42-after-1000'', Inr (ReplyString ''/home/daytona'')),
      (GitClone ''sb-issue-42-after-1000'' ''https://github.com/acme/shop.git''
         ''/home/daytona/shop'' None, Inr ReplyUnit),
      (GetPreviewLink ''sb-issue-42-after-1000'' 3000,
       Inr (ReplyPreview
         \<lparr> preview_url = ''https://3000-sb-issue-42-after-1000.proxy.daytona.work'',
           preview_token = ''token-sb-issue-42-after-1000'' \<rparr>))]"

definition example_pair :: SandboxPair where
  "example_pair = \<lparr> before = example_before_workspace, after = example_after_workspace \<rparr>"

lemma example_pair_run:
  "createSandboxPair example_env (example_sdk no_create_error exec_ok) example_issue
     ''sk-ant-key'' 1000
   = (Inr example_pair, 1010, example_before_trace @ example_after_trace)"
  by (simp add: createSandboxPair_def createAndSetupSandbox_def remote_defs sdk_defs
      example_defs Let_def pair_labels_def show_defs CLAUDE_SNAPSHOT_NAME_def repoPath_of_def
      example_before_sandbox_def example_before_workspace_def example_before_trace_def
      example_after_sandbox_def example_after_workspace_def example_after_trace_def
      example_pair_def after_options_def ok_reply_def)

definition example_setup_trace :: "string \<Rightarrow> string \<Rightarrow> trace" where
  "example_setup_trace sandboxId repoName =
     [(Get sandboxId, Inr (ReplySandbox (example_sandbox sandboxId))),
      (GetWorkDir sandboxId, Inr (ReplyString ''/home/daytona'')),
      (ExecuteCommand sandboxId ''which pnpm'' (Some (''/home/daytona/'' @ repoName)) None,
       ok_reply),
      (ExecuteCommand sandboxId ''pnpm install'' (Some (''/home/daytona/'' @ repoName)) None,
       ok_reply),
      (ExecuteCommand sandboxId ''nohup pnpm dev > /tmp/dev-server.log 2>&1 &''
         (Some (''/home/daytona/'' @ repoName)) None, ok_reply)]"

lemma example_setup_run:
  "setupAndRunApp (example_sdk ce exec_ok) sandboxId repoName w
   = (Inr (), w + 5, example_setup_trace sandboxId repoName)"
  by (simp add: setupAndRunApp_def remote_defs sdk_defs example_sdk_def exec_ok_def Let_def
      repoPath_of_def trim_nonempty_ok example_setup_trace_def example_sandbox_def ok_reply_def)

text \<open>
  Claim C9: when the output of the agent command holds no JSON that parses (no
  brace-delimited text, or one that \<open>JSON.parse\<close> rejects), \<open>runClaudeCodeInSandbox\<close> does
  not throw: it returns the object \<open>{result, warning, exitCode}\<close> whose \<open>result\<close> is the
  full raw output, whose \<open>warning\<close> is \<open>Could not parse JSON response\<close> and whose
  \<open>exitCode\<close> is the exit code of the command.  The handler then goes on: when the agent
  command of its agent stage returned such an output, the calls of the handler continue
  after those of the agent stage with the \<open>daytona.get\<close> of \<open>setupAndRunApp\<close> on the AFTER
  sandbox.
\<close>

theorem agent_output_without_json_degrades:
  "((rq, Inr (ReplyExec response))
        \<in> set (trace_of (runClaudeCodeInSandbox rt sdk sandboxId repoName issueTitle issueBody w))
      \<and> is_agent_command rq \<and> no_json_payload rt (exec_result response)
     \<longrightarrow> outcome (runClaudeCodeInSandbox rt sdk sandboxId repoName issueTitle issueBody w)
          = Inr (JObject [(''result'', JString (exec_result response)),
                          (''warning'', JString ''Could not parse JSON response''),
                          (''exitCode'', JNumber (exitCode response))]))
   \<and> (createSandboxPair env sdk parsedIssue key w0 = (Inr pair, w1, t1)
      \<and> setupAndRunApp sdk (ws_id (before pair)) (parsed_repositoryName parsedIssue) w1
          = (Inr u, w2, t2)
      \<and> (rq', Inr (ReplyExec response'))
          \<in> set (trace_of (runClaudeCodeInSandbox rt sdk (ws_id (after pair))
               (parsed_repositoryName parsedIssue) (parsed_title parsedIssue)
               (parsed_body parsedIssue) w2))
      \<and> is_agent_command rq' \<and> no_json_payload rt (exec_result response')
     \<longrightarrow> (\<exists>c rest. trace_of (handler_steps rt env sdk parsedIssue key w0)
           = t1 @ t2
             @ trace_of (runClaudeCodeInSandbox rt sdk (ws_id (after pair))
                 (parsed_repositoryName parsedIssue) (parsed_title parsedIssue)
                 (parsed_body parsedIssue) w2)
             @ (Get (ws_id (after pair)), c) # rest))"
proof (intro conjI impI)
  assume a: "(rq, Inr (ReplyExec response))
        \<in> set (trace_of (runClaudeCodeInSandbox rt sdk sandboxId repoName issueTitle issueBody w))
      \<and> is_agent_command rq \<and> no_json_payload rt (exec_result response)"
  with runClaudeCodeInSandbox_result
         [of rq "Inr (ReplyExec response)" rt sdk sandboxId repoName issueTitle issueBody w]
  show "outcome (runClaudeCodeInSandbox rt sdk sandboxId repoName issueTitle issueBody w)
          = Inr (JObject [(''result'', JString (exec_result response)),
                          (''warning'', JString ''Could not parse JSON response''),
                          (''exitCode'', JNumber (exitCode response))])"
    by (simp add: parse_claude_output_degraded degraded_result_def)
next
  assume "createSandboxPair env sdk parsedIssue key w0 = (Inr pair, w1, t1)
      \<and> setupAndRunApp sdk (ws_id (before pair)) (parsed_repositoryName parsedIssue) w1
          = (Inr u, w2, t2)
      \<and> (rq', Inr (ReplyExec response'))
          \<in> set (trace_of (runClaudeCodeInSandbox rt sdk (ws_id (after pair))
               (parsed_repositoryName parsedIssue) (parsed_title parsedIssue)
               (parsed_body parsedIssue) w2))
      \<and> is_agent_command rq' \<and> no_json_payload rt (exec_result response')"
  then show "\<exists>c rest. trace_of (handler_steps rt env sdk parsedIssue key w0)
           = t1 @ t2
             @ trace_of (runClaudeCodeInSandbox rt sdk (ws_id (after pair))
                 (parsed_repositoryName parsedIssue) (parsed_title parsedIssue)
                 (parsed_body parsedIssue) w2)
             @ (Get (ws_id (after pair)), c) # rest"
    by (elim conjE) (rule handler_steps_after_degraded_output)
qed

lemma example_pair_ids:
  "ws_id (before example_pair) = ''sb-issue-42-before-1000''"
  "ws_id (after example_pair) = ''sb-issue-42-after-1000''"
  by (simp_all add: example_pair_def example_before_workspace_def example_after_workspace_def)

lemma example_issue_fields:
  "parsed_repositoryName example_issue = ''shop''"
  "parsed_title example_issue = ''Button not clickable''"
  "parsed_body example_issue = ''click does nothing''"
  "parsed_issueNumber example_issue = 42"
  by (simp_all add: example_issue_def)

theorem agent_output_without_json_degrades_witness:
  "outcome (runClaudeCodeInSandbox example_runtime (example_sdk no_create_error exec_ok)
       ''sb-issue-42-after-1000'' ''shop'' ''Button not clickable'' ''click does nothing'' 1015)
     = Inr (JObject [(''result'', JString ''ok''),
                     (''warning'', JString ''Could not parse JSON response''),
                     (''exitCode'', JNumber 0)])
   \<and> (\<exists>c rest. trace_of (handler_steps example_runtime example_env
          (example_sdk no_create_error exec_ok) example_issue ''sk-ant-key'' 1000)
        = (example_before_trace @ example_after_trace)
          @ example_setup_trace ''sb-issue-42-before-1000'' ''shop''
          @ (example_agent_prefix ''sb-issue-42-after-1000'' ''shop''
             @ [(example_agent_request example_runtime ''sb-issue-42-after-1000'' ''shop''
                   ''Button not clickable'' ''click does nothing'', ok_reply),
                (ExecuteCommand ''sb-issue-42-after-1000''
                   (chown_root ''/home/daytona/shop'') None None, ok_reply)])
          @ (Get ''sb-issue-42-after-1000'', c) # rest)"
  using agent_output_without_json_degrades
          [where rt = example_runtime and sdk = "example_sdk no_create_error exec_ok"
             and sandboxId = "''sb-issue-42-after-1000''" and repoName = "''shop''"
             and issueTitle = "''Button not clickable''" and issueBody = "''click does nothing''"
             and w = 1015 and ?w0.0 = 1000 and env = example_env
             and parsedIssue = example_issue and key = "''sk-ant-key''"
             and rq = "example_agent_request example_runtime ''sb-issue-42-after-1000''
                         ''shop'' ''Button not clickable'' ''click does nothing''"
             and rq' = "example_agent_request example_runtime ''sb-issue-42-after-1000''
                         ''shop'' ''Button not clickable'' ''click does nothing''"
             and response = "\<lparr> exitCode = 0, exec_result = ''ok'' \<rparr>"
             and response' = "\<lparr> exitCode = 0, exec_result = ''ok'' \<rparr>"
             and pair = example_pair and ?w1.0 = 1010
             and ?t1.0 = "example_before_trace @ example_after_trace"
             and u = "()" and ?w2.0 = 1015
             and ?t2.0 = "example_setup_trace ''sb-issue-42-before-1000'' ''shop''"]
  by (simp add: example_agent_returns example_pair_run example_setup_run trace_of_def
      outcome_def example_agent_request_is_agent ok_reply_def no_json_payload_def json_match_ok
      example_pair_ids example_issue_fields)

section \<open>Publication\<close>

text \<open>What a trace says about the commands whose text starts with \<open>prefix\<close>: their
  outcomes in order, whether one was issued, whether a given command ran and returned,
  and the files that were uploaded.\<close>

definition outcomes_of :: "string \<Rightarrow> trace \<Rightarrow> (error + reply) list" where
  "outcomes_of prefix t = map snd (filter (\<lambda>c. runs prefix (fst c)) t)"

definition issued :: "string \<Rightarrow> trace \<Rightarrow> bool" where
  "issued prefix t = list_ex (\<lambda>c. runs prefix (fst c)) t"

definition ran :: "string \<Rightarrow> trace \<Rightarrow> bool" where
  "ran command t = list_ex (\<lambda>c. command_of (fst c) = Some command \<and> succeeded (snd c)) t"

fun upload_of :: "request \<Rightarrow> string option" where
  "upload_of (UploadFile sandboxId content path) = Some content"
| "upload_of rq = None"

definition uploads :: "trace \<Rightarrow> string list" where
  "uploads t = List.map_filter (\<lambda>c. upload_of (fst c)) t"

lemmas trace_defs = outcomes_of_def issued_def ran_def uploads_def runs_def
  List.map_filter_simps commit_command_def

lemma createBranchAndPR_cases:
  "ensures (createBranchAndPR rt sdk sandboxId repoName issueNumber issueTitle repositoryOwner
       repositoryName defaultBranch githubToken beforePreviewUrl afterPreviewUrl
       beforePreviewToken afterPreviewToken)
     (\<lambda>r t. outcomes_of ''git status'' t = []
          \<or> (\<exists>e. outcomes_of ''git status'' t = [Inl e])
          \<or> (\<exists>statusResult. outcomes_of ''git status'' t = [Inr (ReplyExec statusResult)]
                \<and> (if trim_nonempty (exec_result statusResult)
                    then (issued ''git push '' t \<longrightarrow>
                            ran ''git add -A'' t
                            \<and> ran (commit_command issueTitle issueNumber) t)
                    else \<not> issued ''git add'' t \<and> \<not> issued ''git commit'' t
                       \<and> (issued ''node '' t
                          \<longrightarrow> uploads t =
                                [prScript rt githubToken issueTitle beforePreviewUrl
                                   beforePreviewToken afterPreviewUrl afterPreviewToken
                                   no_changes_summary issueNumber repositoryOwner
                                   repositoryName (branchName_of rt issueNumber issueTitle)
                                   defaultBranch]))))"
  unfolding createBranchAndPR_def Let_def sdk_defs
  by (auto intro!: ensures_rules simp: trace_defs split: option.splits) blast+

lemma createBranchAndPR_without_json:
  "ensures (createBranchAndPR rt sdk sandboxId repoName issueNumber issueTitle repositoryOwner
       repositoryName defaultBranch githubToken beforePreviewUrl afterPreviewUrl
       beforePreviewToken afterPreviewToken)
     (\<lambda>r t. \<forall>prResult. outcomes_of ''node '' t = [Inr (ReplyExec prResult)]
          \<longrightarrow> no_json_payload rt (exec_result prResult)
          \<longrightarrow> r = Inl (Error ''Failed to create PR''))"
  unfolding createBranchAndPR_def Let_def sdk_defs
  by (auto intro!: ensures_rules simp: trace_defs no_json_payload_def split: option.splits)

lemma digit_char_digit: "0 \<le> d \<Longrightarrow> d < 10 \<Longrightarrow> digit_char d \<in> set ''0123456789''"
  unfolding digit_char_def by (rule nth_mem) simp

lemma show_digits_digits: "set (show_digits n) \<subseteq> set ''0123456789''"
proof (induction n rule: show_digits.induct)
  case (1 n)
  show ?case
  proof (cases "n < 10")
    case True
    have "digit_char n \<in> set ''0123456789''"
      unfolding digit_char_def by (rule nth_mem) (use True in simp)
    with True show ?thesis by (subst show_digits.simps) simp
  next
    case False
    have "digit_char (n mod 10) \<in> set ''0123456789''"
      by (rule digit_char_digit) simp_all
    with False 1 show ?thesis by (subst show_digits.simps) auto
  qed
qed

lemma show_int_no_quote: "CHR 0x27 \<notin> set (show_int n)"
  using show_digits_digits [of n] show_digits_digits [of "- n"]
  by (auto simp: show_int_def)

lemma escape_quotes_append: "escape_quotes (a @ b) = escape_quotes a @ escape_quotes b"
  by (simp add: escape_quotes_def)

lemma escape_quotes_id: "CHR 0x27 \<notin> set s \<Longrightarrow> escape_quotes s = s"
  by (induction s) (auto simp: escape_quotes_def)

lemma startsWith_append: "startsWith p (p @ b)"
  by (induction p) auto

lemma includes_str_append: "includes_str p (a @ p @ b)"
proof (induction a)
  case Nil
  show ?case
  proof (cases "p @ b")
    case Nil
    then show ?thesis by simp
  next
    case (Cons c cs)
    with startsWith_append [of p b] show ?thesis by simp
  qed
next
  case (Cons c a)
  then show ?case by simp
qed

lemma escape_quotes_Nil: "escape_quotes [] = []"
  by (simp add: escape_quotes_def)

lemma escape_quotes_Cons:
  "escape_quotes (c # s)
     = (if c = CHR 0x27 then [CHR 0x27, CHR 0x5C, CHR 0x27, CHR 0x27] else [c]) @ escape_quotes s"
  by (simp add: escape_quotes_def)

lemma commit_references_issue:
  "includes_str (''Fixes #'' @ show_int issueNumber) (commit_command issueTitle issueNumber)"
proof -
  have "commit_command issueTitle issueNumber
      = (''git commit -m '' @ [CHR 0x27] @ escape_quotes (''AutoFix: '' @ issueTitle)
           @ ''\<newline>\<newline>'')
        @ (''Fixes #'' @ show_int issueNumber)
        @ (''\<newline>\<newline>This PR was automatically generated by AutoFixer.'' @ [CHR 0x27])"
    by (simp add: commit_command_def commitMessage_of_def escape_quotes_append
        escape_quotes_Cons escape_quotes_Nil escape_quotes_id [OF show_int_no_quote])
  then show ?thesis
    by (simp only: includes_str_append)
qed


lemma staging_follows_status:
  "(outcomes_of ''git status''
        (trace_of (createBranchAndPR rt sdk sandboxId repoName issueNumber issueTitle
           repositoryOwner repositoryName defaultBranch githubToken beforePreviewUrl
           afterPreviewUrl beforePreviewToken afterPreviewToken w))
      = [Inr (ReplyExec statusResult)]
    \<and> \<not> trim_nonempty (exec_result statusResult)
    \<longrightarrow> \<not> issued ''git add''
          (trace_of (createBranchAndPR rt sdk sandboxId repoName issueNumber issueTitle
             repositoryOwner repositoryName defaultBranch githubToken beforePreviewUrl
             afterPreviewUrl beforePreviewToken afterPreviewToken w))
       \<and> \<not> issued ''git commit''
          (trace_of (createBranchAndPR rt sdk sandboxId repoName issueNumber issueTitle
             repositoryOwner repositoryName defaultBranch githubToken beforePreviewUrl
             afterPreviewUrl beforePreviewToken afterPreviewToken w))
       \<and> (issued ''node ''
             (trace_of (createBranchAndPR rt sdk sandboxId repoName issueNumber issueTitle
                repositoryOwner repositoryName defaultBranch githubToken beforePreviewUrl
                afterPreviewUrl beforePreviewToken afterPreviewToken w))
          \<longrightarrow> uploads (trace_of (createBranchAndPR rt sdk sandboxId repoName issueNumber
                 issueTitle repositoryOwner repositoryName defaultBranch githubToken
                 beforePreviewUrl afterPreviewUrl beforePreviewToken afterPreviewToken w))
               = [prScript rt githubToken issueTitle beforePreviewUrl beforePreviewToken
                    afterPreviewUrl afterPreviewToken no_changes_summary issueNumber
                    repositoryOwner repositoryName (branchName_of rt issueNumber issueTitle)
                    defaultBranch]))
   \<and> (outcomes_of ''git status''
        (trace_of (createBranchAndPR rt sdk sandboxId repoName issueNumber issueTitle
           repositoryOwner repositoryName defaultBranch githubToken beforePreviewUrl
           afterPreviewUrl beforePreviewToken afterPreviewToken w))
      = [Inr (ReplyExec statusResult)]
    \<and> trim_nonempty (exec_result statusResult)
    \<and> issued ''git push ''
         (trace_of (createBranchAndPR rt sdk sandboxId repoName issueNumber issueTitle
            repositoryOwner repositoryName defaultBranch githubToken beforePreviewUrl
            afterPreviewUrl beforePreviewToken afterPreviewToken w))
    \<longrightarrow> ran ''git add -A''
          (trace_of (createBranchAndPR rt sdk sandboxId repoName issueNumber issueTitle
             repositoryOwner repositoryName defaultBranch githubToken beforePreviewUrl
             afterPreviewUrl beforePreviewToken afterPreviewToken w))
       \<and> ran (commit_command issueTitle issueNumber)
          (trace_of (createBranchAndPR rt sdk sandboxId repoName issueNumber issueTitle
             repositoryOwner repositoryName defaultBranch githubToken beforePreviewUrl
             afterPreviewUrl beforePreviewToken afterPreviewToken w))
       \<and> includes_str (''Fixes #'' @ show_int issueNumber)
            (commit_command issueTitle issueNumber))"
  using ensuresD [OF createBranchAndPR_cases, of rt sdk sandboxId repoName issueNumber
          issueTitle repositoryOwner repositoryName defaultBranch githubToken
          beforePreviewUrl afterPreviewUrl beforePreviewToken afterPreviewToken w]
        commit_references_issue [of issueNumber issueTitle]
  by auto

text \<open>The text of the template literal \<open>prBody\<close> of the uploaded script, as JavaScript
  reads it: it ends at the first backtick of the Markdown fence.\<close>

definition prBody_literal :: "int \<Rightarrow> string" where
  "prBody_literal issueNumber =
     ''## '' @ [CHR 0xF0, CHR 0x9F, CHR 0xA4, CHR 0x96] @ '' AutoFixer Pull Request\<newline>\<newline>''
     @ ''This PR was automatically generated to address issue #'' @ show_int issueNumber
     @ ''.\<newline>\<newline>### '' @ [CHR 0xF0, CHR 0x9F, CHR 0x93, CHR 0x8B]
     @ '' Summary of Changes\<newline>\<newline>''"

definition template_plain :: "string \<Rightarrow> bool" where
  "template_plain a = list_all (\<lambda>c. c \<noteq> CHR ''`'' \<and> c \<noteq> CHR 0x5C \<and> c \<noteq> CHR ''$'') a"

lemma template_end_plain:
  "template_plain a \<Longrightarrow> template_end (a @ CHR ''`'' # r) = Some (a, r)"
  by (induction a) (auto simp: template_plain_def)

lemma show_int_plain: "template_plain (show_int n)"
  using show_digits_digits [of n] show_digits_digits [of "- n"]
  by (auto simp: show_int_def template_plain_def list_all_iff)

lemma prBody_literal_plain: "template_plain (prBody_literal n)"
  using show_int_plain [of n] by (simp add: prBody_literal_def template_plain_def)

lemma prBody_statement_text:
  "concat (map (\<lambda>l. l @ ''\<newline>'') (prBody_statement n))
   = ''    const prBody = `'' @ prBody_literal n @ CHR ''`''
     # ''``\<newline>${changesSummary}\<newline>```\<newline>''
       @ concat (map (\<lambda>l. l @ ''\<newline>'') (drop 9 (prBody_statement n)))"
  by (simp add: prBody_statement_def prBody_literal_def)

lemma prScript_prBody:
  "\<exists>before after rest.
      prScript rt githubToken issueTitle beforePreviewUrl beforePreviewToken afterPreviewUrl
        afterPreviewToken changesSummary issueNumber repositoryOwner repositoryName branchName
        defaultBranch
      = before @ ''const prBody = `'' @ after
    \<and> template_end after = Some (prBody_literal issueNumber, rest)
    \<and> startsWith ''``\<newline>${changesSummary}\<newline>```'' rest"
proof (intro exI conjI)
  let ?unlines = "\<lambda>ls. concat (map (\<lambda>l. l @ ''\<newline>'') ls)"
  let ?rest = "''``\<newline>${changesSummary}\<newline>```\<newline>''
       @ ?unlines (drop 9 (prBody_statement issueNumber))
       @ ?unlines (script_request rt repositoryOwner repositoryName branchName defaultBranch)"
  show "prScript rt githubToken issueTitle beforePreviewUrl beforePreviewToken afterPreviewUrl
        afterPreviewToken changesSummary issueNumber repositoryOwner repositoryName branchName
        defaultBranch
      = (''\<newline>'' @ ?unlines (script_constants rt githubToken issueTitle beforePreviewUrl
            beforePreviewToken afterPreviewUrl afterPreviewToken changesSummary) @ ''    '')
        @ ''const prBody = `'' @ (prBody_literal issueNumber @ CHR ''`'' # ?rest)"
    unfolding prScript_def map_append concat_append prBody_statement_text by simp
  show "template_end (prBody_literal issueNumber @ CHR ''`'' # ?rest)
      = Some (prBody_literal issueNumber, ?rest)"
    by (rule template_end_plain [OF prBody_literal_plain])
  show "startsWith ''``\<newline>${changesSummary}\<newline>```'' ?rest"
    by simp
qed

text \<open>
  Claim C8 says that, with or without changes, publication succeeds and the body of the
  pull request states the changes.  What precedes the script is as the claim says (lemma
  \<open>staging_follows_status\<close>).  The script that creates the pull request is not: in it the
  template literal \<open>prBody\<close> ends at the first backtick of the Markdown fence, before
  \<open>${changesSummary}\<close>, and what follows it, two backticks and then a line that starts with
  \<open>${changesSummary}\<close>, is not JavaScript.  \<open>node\<close> rejects such a script before it runs any
  of it, so the script prints no JSON; and whenever the output of the \<open>node\<close> command holds
  no JSON that parses, \<open>createBranchAndPR\<close> throws \<open>Failed to create PR\<close>, whether or not
  there were changes.
\<close>

theorem pull_request_script_breaks_publication:
  "(\<exists>before after rest.
      prScript rt githubToken issueTitle beforePreviewUrl beforePreviewToken afterPreviewUrl
        afterPreviewToken changesSummary issueNumber repositoryOwner repositoryName branchName
        defaultBranch
      = before @ ''const prBody = `'' @ after
    \<and> template_end after = Some (prBody_literal issueNumber, rest)
    \<and> startsWith ''``\<newline>${changesSummary}\<newline>```'' rest)
   \<and> (outcomes_of ''node ''
         (trace_of (createBranchAndPR rt sdk sandboxId repoName issueNumber issueTitle
            repositoryOwner repositoryName defaultBranch githubToken beforePreviewUrl
            afterPreviewUrl beforePreviewToken afterPreviewToken w))
        = [Inr (ReplyExec prResult)]
      \<and> no_json_payload rt (exec_result prResult)
     \<longrightarrow> outcome (createBranchAndPR rt sdk sandboxId repoName issueNumber issueTitle
            repositoryOwner repositoryName defaultBranch githubToken beforePreviewUrl
            afterPreviewUrl beforePreviewToken afterPreviewToken w)
          = Inl (Error ''Failed to create PR''))"
  using prScript_prBody [of rt githubToken issueTitle beforePreviewUrl beforePreviewToken
          afterPreviewUrl afterPreviewToken changesSummary issueNumber repositoryOwner
          repositoryName branchName defaultBranch]
        ensuresD [OF createBranchAndPR_without_json, of rt sdk sandboxId repoName issueNumber
          issueTitle repositoryOwner repositoryName defaultBranch githubToken
          beforePreviewUrl afterPreviewUrl beforePreviewToken afterPreviewToken w]
  by blast


text \<open>A world for publication: \<open>git status --short\<close> prints nothing, and \<open>node\<close> reports
  the syntax error of the script and exits with 1.\<close>

definition node_syntax_error :: string where
  "node_syntax_error =
     ''/home/daytona/shop/.create-pr.js:24\<newline>${changesSummary}\<newline> ^\<newline>\<newline>''
     @ ''SyntaxError: Unexpected token '' @ [CHR 0x27] @ ''{'' @ [CHR 0x27]"

definition exec_publish :: "string \<Rightarrow> error + ExecuteResponse" where
  "exec_publish command =
     (if command = ''git status --short'' then Inr \<lparr> exitCode = 0, exec_result = [] \<rparr>
      else if startsWith ''node '' command
      then Inr \<lparr> exitCode = 1, exec_result = node_syntax_error \<rparr>
      else exec_ok command)"

definition in_repo :: "string \<Rightarrow> error + reply \<Rightarrow> request \<times> (error + reply)" where
  "in_repo command out =
     (ExecuteCommand ''sb-issue-42-after-1000'' command (Some ''/home/daytona/shop'') None, out)"

definition example_script :: string where
  "example_script =
     prScript example_runtime ''ghp_token'' ''Button not clickable'' ''https://before.example''
       ''token-before'' ''https://after.example'' ''token-after'' no_changes_summary 42 ''acme''
       ''shop'' (branchName_of example_runtime 42 ''Button not clickable'') ''main''"

definition publish_trace :: trace where
  "publish_trace =
     [(Get ''sb-issue-42-after-1000'',
       Inr (ReplySandbox (example_sandbox ''sb-issue-42-after-1000''))),
      (GetWorkDir ''sb-issue-42-after-1000'', Inr (ReplyString ''/home/daytona'')),
      in_repo (''git config user.name \"AutoFixer Bot\" && ''
                 @ ''git config user.email \"autofixer@daytona.io\"'') ok_reply,
      in_repo ''git checkout main'' ok_reply,
      in_repo ''git status --short'' (Inr (ReplyExec \<lparr> exitCode = 0, exec_result = [] \<rparr>)),
      in_repo (''git checkout -b '' @ branchName_of example_runtime 42 ''Button not clickable'')
        ok_reply,
      in_repo (''git remote set-url origin https://ghp_token@github.com/acme/shop.git''
                 @ '' || git remote add origin https://ghp_token@github.com/acme/shop.git'')
        ok_reply,
      in_repo (''git push -u origin '' @ branchName_of example_runtime 42 ''Button not clickable'')
        ok_reply,
      (UploadFile ''sb-issue-42-after-1000'' example_script ''/home/daytona/shop/.create-pr.js'',
       Inr ReplyUnit),
      in_repo ''node /home/daytona/shop/.create-pr.js''
        (Inr (ReplyExec \<lparr> exitCode = 1, exec_result = node_syntax_error \<rparr>))]"

lemma trim_blank: "\<not> trim_nonempty []"
  by (simp add: trim_nonempty_def trimStart.simps space_length_def)

lemma json_match_syntax_error: "json_match node_syntax_error = Some ''{changesSummary}''"
  by (simp add: json_match_def node_syntax_error_def)

lemma example_publish_run:
  "createBranchAndPR example_runtime (example_sdk no_create_error exec_publish)
     ''sb-issue-42-after-1000'' ''shop'' 42 ''Button not clickable'' ''acme'' ''shop'' ''main''
     ''ghp_token'' ''https://before.example'' ''https://after.example'' ''token-before''
     ''token-after'' 1031
   = (Inl (Error ''Failed to create PR''), 1041, publish_trace)"
  by (simp add: createBranchAndPR_def remote_defs sdk_defs example_sdk_def exec_ok_def
      exec_publish_def Let_def repoPath_of_def trim_blank json_match_syntax_error
      example_runtime_def publish_trace_def example_script_def in_repo_def ok_reply_def
      example_sandbox_def)

theorem pull_request_script_breaks_publication_witness:
  "(\<exists>before after rest.
      example_script = before @ ''const prBody = `'' @ after
    \<and> template_end after = Some (prBody_literal 42, rest)
    \<and> startsWith ''``\<newline>${changesSummary}\<newline>```'' rest)
   \<and> outcome (createBranchAndPR example_runtime (example_sdk no_create_error exec_publish)
       ''sb-issue-42-after-1000'' ''shop'' 42 ''Button not clickable'' ''acme'' ''shop'' ''main''
       ''ghp_token'' ''https://before.example'' ''https://after.example'' ''token-before''
       ''token-after'' 1031)
     = Inl (Error ''Failed to create PR'')"
proof -
  note broken = pull_request_script_breaks_publication
          [where rt = example_runtime and sdk = "example_sdk no_create_error exec_publish"
             and sandboxId = "''sb-issue-42-after-1000''" and repoName = "''shop''"
             and issueNumber = 42 and issueTitle = "''Button not clickable''"
             and repositoryOwner = "''acme''" and repositoryName = "''shop''"
             and defaultBranch = "''main''" and githubToken = "''ghp_token''"
             and beforePreviewUrl = "''https://before.example''"
             and afterPreviewUrl = "''https://after.example''"
             and beforePreviewToken = "''token-before''"
             and afterPreviewToken = "''token-after''" and w = 1031
             and changesSummary = no_changes_summary
             and branchName = "branchName_of example_runtime 42 ''Button not clickable''"
             and prResult = "\<lparr> exitCode = 1, exec_result = node_syntax_error \<rparr>",
           folded example_script_def]
  have node: "outcomes_of ''node '' publish_trace
      = [Inr (ReplyExec \<lparr> exitCode = 1, exec_result = node_syntax_error \<rparr>)]"
    by (simp add: publish_trace_def in_repo_def ok_reply_def trace_defs)
  have no_json: "no_json_payload example_runtime node_syntax_error"
    by (simp add: no_json_payload_def json_match_syntax_error example_runtime_def)
  have calls: "trace_of (createBranchAndPR example_runtime
       (example_sdk no_create_error exec_publish) ''sb-issue-42-after-1000'' ''shop'' 42
       ''Button not clickable'' ''acme'' ''shop'' ''main'' ''ghp_token'' ''https://before.example''
       ''https://after.example'' ''token-before'' ''token-after'' 1031) = publish_trace"
    by (simp add: example_publish_run trace_of_def)
  from broken node no_json calls show ?thesis
    by simp
qed

section \<open>The handler and the run store\<close>

text \<open>The request passes every check of the handler up to the update to \<open>processing\<close>
  (lines 35 to 107), and is parsed as \<open>parsedIssue\<close>.\<close>

definition accepted :: "runtime \<Rightarrow> process_env \<Rightarrow> http_request \<Rightarrow> ParsedIssue option" where
  "accepted rt env req =
     (if req_method req = ''POST'' \<and> truthy (WEBHOOK_SECRET env)
         \<and> truthy (DAYTONA_API_KEY env) \<and> truthy (ANTHROPIC_API_KEY env)
      then
        (case req_rawBody req of
           Inl e \<Rightarrow> None
         | Inr rawBody \<Rightarrow>
             if verifyGitHubSignature rt rawBody (req_signature req) (the (WEBHOOK_SECRET env))
                  = Inr True
             then
               (case JSON_parse_payload rt rawBody of
                  Inl e \<Rightarrow> None
                | Inr payload \<Rightarrow>
                    if isIssueOpenedEvent payload
                    then
                      (case parseIssue payload of
                         Inl e \<Rightarrow> None
                       | Inr parsedIssue \<Rightarrow>
                           if validateParsedIssue parsedIssue then Some parsedIssue else None)
                    else None)
             else None)
      else None)"

text \<open>The record the handler stores for an accepted issue (line 80), with a status and
  the two sandbox ids.\<close>

definition run_record ::
  "ParsedIssue \<Rightarrow> issue_status \<Rightarrow> string option \<Rightarrow> string option \<Rightarrow> int \<Rightarrow> int \<Rightarrow> InMemoryIssue"
  where
  "run_record parsedIssue status beforeId afterId created updated =
     \<lparr> i_issueNumber = parsed_issueNumber parsedIssue,
       i_repositoryName = parsed_repositoryName parsedIssue,
       i_repositoryOwner = parsed_repositoryOwner parsedIssue,
       i_title = parsed_title parsedIssue,
       i_body = parsed_body parsedIssue,
       i_beforeWorkspaceId = beforeId,
       i_afterWorkspaceId = afterId,
       i_status = status,
       i_createdAt = created,
       i_updatedAt = updated \<rparr>"

lemma parseIssue_Inr_log: "parseIssue payload = Inr p \<Longrightarrow> log_issue_opened payload = Inr ()"
  by (auto simp: parseIssue_def log_issue_opened_def split: js_field.splits)

lemma handler_accepted:
  assumes "accepted rt env req = Some parsedIssue"
  shows "handler rt env sdk req issues w =
     (case handler_steps rt env sdk parsedIssue (the (ANTHROPIC_API_KEY env)) w of
        (Inl e, w', t) \<Rightarrow>
          (internal_server_error e,
           issues(parsed_issueNumber parsedIssue \<mapsto>
             run_record parsedIssue Processing None None (sdk_now sdk w) (sdk_now sdk w)),
           w', t)
      | (Inr sandboxPair, w', t) \<Rightarrow>
          (respond 200
             (ProcessedBody ''Issue processed successfully'' parsedIssue
                (summary (before sandboxPair)) (summary (after sandboxPair))),
           issues(parsed_issueNumber parsedIssue \<mapsto>
             run_record parsedIssue Completed (Some (ws_id (before sandboxPair)))
               (Some (ws_id (after sandboxPair))) (sdk_now sdk w) (sdk_now sdk w')),
           w', t))"
  using assms
  by (auto simp: accepted_def handler_def Let_def saveIssue_def updateIssue_def spread_def
      no_updates_def run_record_def parseIssue_Inr_log
      split: if_splits sum.splits prod.splits)

lemma updateIssue_map_add:
  "m n = Some i \<Longrightarrow> updateIssue now n u (issues ++ m) = issues ++ updateIssue now n u m"
  by (simp add: updateIssue_def map_add_Some_iff)

lemma handler_store_independent:
  "handler rt env sdk req issues w =
     (case handler rt env sdk req Map.empty w of
        (res, issues', w', t) \<Rightarrow> (res, issues ++ issues', w', t))"
proof (cases "accepted rt env req")
  case (Some parsedIssue)
  show ?thesis
    by (simp add: handler_accepted [OF Some] split: prod.splits sum.splits)
next
  case None
  then show ?thesis
    by (auto simp: accepted_def handler_def Let_def saveIssue_def updateIssue_def
        split: if_splits sum.splits prod.splits)
qed

lemma handler_replaces_record:
  assumes "accepted rt env req = Some parsedIssue"
  shows "\<exists>status beforeId afterId updated.
           fst (snd (handler rt env sdk req issues w)) (parsed_issueNumber parsedIssue)
             = Some (run_record parsedIssue status beforeId afterId (sdk_now sdk w) updated)"
  by (auto simp: handler_accepted [OF assms] split: prod.splits sum.splits)

text \<open>
  Claim C1 says that a second \<open>opened\<close> event for an issue whose run is still pending or
  processing is dropped.  The handler never reads the run store: \<open>saveIssue\<close> is an
  unconditional \<open>set\<close>, and no \<open>getIssue\<close> precedes it.  As amended: whatever the store
  holds, the handler answers an event and calls the provider exactly as it does on an
  empty store, the new store being the old one overridden by what the handler writes on
  an empty store; and for an event that passes the checks of the handler, the record of
  its issue number is replaced by a record created at the time of this event.
\<close>

theorem handler_ignores_the_run_store:
  "handler rt env sdk req issues w =
     (case handler rt env sdk req Map.empty w of
        (res, issues', w', t) \<Rightarrow> (res, issues ++ issues', w', t))
   \<and> (accepted rt env req = Some parsedIssue
      \<longrightarrow> (\<exists>status beforeId afterId updated.
            fst (snd (handler rt env sdk req issues w)) (parsed_issueNumber parsedIssue)
              = Some (run_record parsedIssue status beforeId afterId (sdk_now sdk w) updated)))"
  using handler_store_independent [of rt env sdk req issues w]
        handler_replaces_record [of rt env req parsedIssue sdk issues w]
  by blast

section \<open>Events that are not handled\<close>

lemma handler_ignores_other_events:
  assumes "req_method req = ''POST''" and "truthy (WEBHOOK_SECRET env)"
    and "req_rawBody req = Inr rawBody"
    and "verifyGitHubSignature rt rawBody (req_signature req) (the (WEBHOOK_SECRET env))
           = Inr True"
    and "JSON_parse_payload rt rawBody = Inr payload"
    and "payload_action payload \<noteq> ''opened'' \<or> payload_issue payload = Undefined"
  shows "handler rt env sdk req issues w
           = (respond 200 (MessageBody ''Event ignored''), issues, w, [])"
  using assms by (auto simp: handler_def isIssueOpenedEvent_def)

text \<open>
  Claim C5 says that an event whose action is not \<open>opened\<close> or whose issue is \<open>null\<close> is
  answered with 200 and \<open>Event ignored\<close>.  That holds when the action is not \<open>opened\<close> or
  the payload has no issue (the lemma above).  But \<open>isIssueOpenedEvent\<close> tests
  \<open>payload.issue !== undefined\<close>, which \<open>null\<close> passes: an \<open>opened\<close> event whose issue is
  \<open>null\<close> is not ignored.  The handler goes on to log \<open>payload.issue.number\<close>, which throws
  a \<open>TypeError\<close>, and answers 500; no record is stored and no call is made.
\<close>

theorem opened_event_with_null_issue:
  assumes "req_method req = ''POST''" and "truthy (WEBHOOK_SECRET env)"
    and "req_rawBody req = Inr rawBody"
    and "verifyGitHubSignature rt rawBody (req_signature req) (the (WEBHOOK_SECRET env))
           = Inr True"
    and "JSON_parse_payload rt rawBody = Inr payload"
    and "payload_action payload = ''opened''" and "payload_issue payload = Null"
  shows "handler rt env sdk req issues w
           = (respond 500
                (ErrorMessageBody ''Internal server error'' (null_property_message ''number'')),
              issues, w, [])"
  using assms
  by (simp add: handler_def isIssueOpenedEvent_def log_issue_opened_def
      internal_server_error_def)

section \<open>Failures after the update to processing\<close>



lemma handler_steps_without_token:
  assumes "createSandboxPair env sdk parsedIssue key w = (Inr pair, w1, t1)"
    and "setupAndRunApp sdk (ws_id (before pair)) (parsed_repositoryName parsedIssue) w1
           = (Inr u, w2, t2)"
    and "runClaudeCodeInSandbox rt sdk (ws_id (after pair)) (parsed_repositoryName parsedIssue)
           (parsed_title parsedIssue) (parsed_body parsedIssue) w2
           = (Inr claudeResult, w3, t3)"
    and "log_claude_result claudeResult w3 = (Inr (), w3, [])"
    and "setupAndRunApp sdk (ws_id (after pair)) (parsed_repositoryName parsedIssue) w3
           = (Inr u', w4, t4)"
    and "getPreviewUrl sdk (ws_id (before pair)) 3000 w4 = (Inr beforePreview, w5, t5)"
    and "getPreviewUrl sdk (ws_id (after pair)) 3000 w5 = (Inr afterPreview, w6, t6)"
    and "\<not> truthy (GITHUB_TOKEN env)"
  shows "handler_steps rt env sdk parsedIssue key w
           = (Inr \<lparr> before = with_preview (before pair) beforePreview,
                    after = with_preview (after pair) afterPreview \<rparr>,
              w6, t1 @ t2 @ t3 @ t4 @ t5 @ t6)"
  unfolding handler_steps_def
  by (simp add:
        await_Inr [where m = "createSandboxPair env sdk parsedIssue key" and w = w,
          OF assms(1)]
        await_Inr [where m = "setupAndRunApp sdk (ws_id (before pair))
          (parsed_repositoryName parsedIssue)" and w = w1, OF assms(2)]
        await_Inr [where m = "runClaudeCodeInSandbox rt sdk (ws_id (after pair))
          (parsed_repositoryName parsedIssue) (parsed_title parsedIssue)
          (parsed_body parsedIssue)" and w = w2, OF assms(3)]
        await_Inr [where m = "log_claude_result claudeResult" and w = w3, OF assms(4)]
        await_Inr [where m = "setupAndRunApp sdk (ws_id (after pair))
          (parsed_repositoryName parsedIssue)" and w = w3, OF assms(5)]
        await_Inr [where m = "getPreviewUrl sdk (ws_id (before pair)) 3000" and w = w4,
          OF assms(6)]
        await_Inr [where m = "getPreviewUrl sdk (ws_id (after pair)) 3000" and w = w5,
          OF assms(7)]
        assms(8) await_ret)
     (simp add: ret_def)


section \<open>Worked examples of the handler\<close>

text \<open>An \<open>opened\<close> event for issue 42 of \<open>acme/shop\<close>, the same event with \<open>issue: null\<close>,
  and a runtime whose \<open>JSON.parse\<close> reads these two bodies.\<close>

definition example_payload :: GitHubWebhookPayload where
  "example_payload =
     \<lparr> payload_action = ''opened'',
       payload_issue =
         Value \<lparr> issue_number = 42, issue_title = ''Button not clickable'',
                 issue_body = Some ''click does nothing'',
                 issue_html_url = ''https://github.com/acme/shop/issues/42'' \<rparr>,
       payload_repository =
         \<lparr> repo_name = ''shop'', repo_owner_login = ''acme'',
           repo_clone_url = ''https://github.com/acme/shop.git'',
           repo_html_url = ''https://github.com/acme/shop'',
           repo_default_branch = ''main'' \<rparr> \<rparr>"

definition example_repository_json :: string where
  "example_repository_json =
     ''\"repository\":{\"name\":\"shop\",\"owner\":{\"login\":\"acme\"},''
     @ ''\"clone_url\":\"https://github.com/acme/shop.git\",''
     @ ''\"html_url\":\"https://github.com/acme/shop\",\"default_branch\":\"main\"}''"

definition example_body :: string where
  "example_body =
     ''{\"action\":\"opened\",\"issue\":{\"number\":42,\"title\":\"Button not clickable\",''
     @ ''\"body\":\"click does nothing\",''
     @ ''\"html_url\":\"https://github.com/acme/shop/issues/42\"},''
     @ example_repository_json @ ''}''"

definition null_issue_body :: string where
  "null_issue_body = ''{\"action\":\"opened\",\"issue\":null,'' @ example_repository_json @ ''}''"

definition webhook_runtime :: runtime where
  "webhook_runtime =
     example_runtime \<lparr> JSON_parse_payload := (\<lambda>s.
       if s = example_body then Inr example_payload
       else if s = null_issue_body then Inr (example_payload \<lparr> payload_issue := Null \<rparr>)
       else Inl (SyntaxError ''Unexpected end of JSON input'')) \<rparr>"

text \<open>A \<open>POST\<close> of \<open>rawBody\<close> signed with the webhook secret.\<close>

definition webhook_request :: "string \<Rightarrow> http_request" where
  "webhook_request rawBody =
     \<lparr> req_method = ''POST'',
       req_signature =
         Some (''sha256='' @ hex_digest (hmac_sha256 webhook_runtime ''s3cret'' rawBody)),
       req_rawBody = Inr rawBody \<rparr>"

definition publish_env :: process_env where
  "publish_env = example_env \<lparr> GITHUB_TOKEN := Some ''ghp_token'' \<rparr>"


lemma bodies_differ: "example_body \<noteq> null_issue_body"
  by (simp add: example_body_def null_issue_body_def)

lemma webhook_parse:
  "JSON_parse_payload webhook_runtime example_body = Inr example_payload"
  "JSON_parse_payload webhook_runtime null_issue_body
     = Inr (example_payload \<lparr> payload_issue := Null \<rparr>)"
  by (simp_all add: webhook_runtime_def bodies_differ [symmetric])

lemma webhook_request_signed:
  "verifyGitHubSignature webhook_runtime rawBody (req_signature (webhook_request rawBody))
     ''s3cret'' = Inr True"
  by (simp add: webhook_request_def verifyGitHubSignature_def timingSafeEqual_def Let_def)

lemma webhook_request_fields:
  "req_method (webhook_request rawBody) = ''POST''"
  "req_rawBody (webhook_request rawBody) = Inr rawBody"
  by (simp_all add: webhook_request_def)

lemma example_request_accepted:
  "accepted webhook_runtime example_env (webhook_request example_body) = Some example_issue"
  "accepted webhook_runtime publish_env (webhook_request example_body) = Some example_issue"
  by (simp_all add: accepted_def webhook_request_signed webhook_parse example_env_def
      publish_env_def isIssueOpenedEvent_def parseIssue_def validateParsedIssue_def
      example_payload_def example_issue_def webhook_request_fields)

definition example_preview :: "string \<Rightarrow> PreviewInfo" where
  "example_preview sandboxId =
     \<lparr> preview_url = ''https://3000-'' @ sandboxId @ ''.proxy.daytona.work'',
       preview_token = ''token-'' @ sandboxId \<rparr>"

definition example_preview_trace :: "string \<Rightarrow> trace" where
  "example_preview_trace sandboxId =
     [(Get sandboxId, Inr (ReplySandbox (example_sandbox sandboxId))),
      (GetPreviewLink sandboxId 3000, Inr (ReplyPreview (example_preview sandboxId)))]"

lemma example_preview_run:
  "getPreviewUrl (example_sdk ce exec) sandboxId 3000 w
   = (Inr (example_preview sandboxId), w + 2, example_preview_trace sandboxId)"
  by (simp add: getPreviewUrl_def remote_defs sdk_defs example_sdk_def example_preview_def
      example_preview_trace_def example_sandbox_def)

lemma log_degraded_run: "log_claude_result (degraded_result out code) w = (Inr (), w, [])"
  by (simp add: log_degraded_result ret_def)

lemma example_key: "the (ANTHROPIC_API_KEY example_env) = ''sk-ant-key''"
  "the (ANTHROPIC_API_KEY publish_env) = ''sk-ant-key''"
  "\<not> truthy (GITHUB_TOKEN example_env)"
  "truthy (GITHUB_TOKEN publish_env)"
  "the (GITHUB_TOKEN publish_env) = ''ghp_token''"
  by (simp_all add: example_env_def publish_env_def)

text \<open>A world in which every command returns.\<close>

definition example_run_trace :: "runtime \<Rightarrow> trace" where
  "example_run_trace rt =
     example_before_trace @ example_after_trace
     @ example_setup_trace ''sb-issue-42-before-1000'' ''shop''
     @ example_agent_prefix ''sb-issue-42-after-1000'' ''shop''
     @ [(example_agent_request rt ''sb-issue-42-after-1000'' ''shop'' ''Button not clickable''
           ''click does nothing'', ok_reply),
        (ExecuteCommand ''sb-issue-42-after-1000'' (chown_root ''/home/daytona/shop'') None None,
         ok_reply)]
     @ example_setup_trace ''sb-issue-42-after-1000'' ''shop''
     @ example_preview_trace ''sb-issue-42-before-1000''
     @ example_preview_trace ''sb-issue-42-after-1000''"

definition example_response :: http_response where
  "example_response =
     respond 200
       (ProcessedBody ''Issue processed successfully'' example_issue
          (summary example_before_workspace) (summary example_after_workspace))"

lemma example_steps_run:
  "handler_steps rt example_env (example_sdk no_create_error exec_ok) example_issue
     ''sk-ant-key'' 1000
   = (Inr example_pair, 1030, example_run_trace rt)"
  using handler_steps_without_token
          [OF example_pair_run example_setup_run example_agent_returns log_degraded_run
              example_setup_run example_preview_run example_preview_run example_key(3),
           of rt]
  by (simp add: example_pair_ids example_issue_fields example_run_trace_def with_preview_def
      example_pair_def example_preview_def example_before_workspace_def
      example_after_workspace_def)

lemma example_handler_run:
  "handler webhook_runtime example_env (example_sdk no_create_error exec_ok)
     (webhook_request example_body) issues 1000
   = (example_response,
      issues(42 \<mapsto> run_record example_issue Completed (Some ''sb-issue-42-before-1000'')
                    (Some ''sb-issue-42-after-1000'') 1000 1030),
      1030, example_run_trace webhook_runtime)"
  by (simp add: handler_accepted [OF example_request_accepted(1)] example_key example_steps_run
      example_pair_ids example_issue_fields example_sdk_now example_response_def
      example_pair_def example_before_workspace_def example_after_workspace_def)














text \<open>The run store while a first run for issue 42 is being processed.\<close>

definition first_run :: db where
  "first_run = [42 \<mapsto> run_record example_issue Processing None None 900 900]"

theorem handler_ignores_the_run_store_witness:
  "handler webhook_runtime example_env (example_sdk no_create_error exec_ok)
     (webhook_request example_body) first_run 1000
   = (case handler webhook_runtime example_env (example_sdk no_create_error exec_ok)
            (webhook_request example_body) Map.empty 1000 of
        (res, issues', w', t) \<Rightarrow> (res, first_run ++ issues', w', t))
   \<and> (\<exists>status beforeId afterId updated.
        fst (snd (handler webhook_runtime example_env (example_sdk no_create_error exec_ok)
                    (webhook_request example_body) first_run 1000)) 42
          = Some (run_record example_issue status beforeId afterId 1000 updated))"
proof -
  note store = handler_ignores_the_run_store
          [where rt = webhook_runtime and env = example_env
             and sdk = "example_sdk no_create_error exec_ok"
             and req = "webhook_request example_body" and issues = first_run and w = 1000
             and parsedIssue = example_issue]
  have "\<exists>status beforeId afterId updated.
        fst (snd (handler webhook_runtime example_env (example_sdk no_create_error exec_ok)
                    (webhook_request example_body) first_run 1000)) 42
          = Some (run_record example_issue status beforeId afterId 1000 updated)"
    using store [THEN conjunct2]
    by (simp add: example_request_accepted example_issue_fields example_sdk_now)
  with store [THEN conjunct1] show ?thesis
    by (rule conjI)
qed

text \<open>The failing case of claim C1 as stated: the record of issue 42 is in the status
  \<open>processing\<close>, and a second \<open>opened\<close> event for issue 42 is answered with 200, creates a
  BEFORE and an AFTER sandbox and replaces the record.\<close>

theorem second_opened_event_is_processed:
  "first_run 42 = Some (run_record example_issue Processing None None 900 900)
   \<and> (case handler webhook_runtime example_env (example_sdk no_create_error exec_ok)
             (webhook_request example_body) first_run 1000 of
         (res, issues', w', t) \<Rightarrow>
           res_status res = 200
           \<and> filter is_create (map fst (filter (\<lambda>c. succeeded (snd c)) t))
               = [Create before_options, Create after_options]
           \<and> issues' 42
               = Some (run_record example_issue Completed (Some ''sb-issue-42-before-1000'')
                         (Some ''sb-issue-42-after-1000'') 1000 1030))"
  by (simp add: first_run_def example_handler_run example_response_def respond_def
      example_run_trace_def example_before_trace_def example_after_trace_def
      example_setup_trace_def example_agent_prefix_def example_agent_request_def
      example_preview_trace_def before_options_def after_options_def ok_reply_def)

theorem opened_event_with_null_issue_witness:
  "handler webhook_runtime example_env (example_sdk no_create_error exec_ok)
     (webhook_request null_issue_body) Map.empty 1000
   = (respond 500
        (ErrorMessageBody ''Internal server error'' (null_property_message ''number'')),
      Map.empty, 1000, [])"
  using opened_event_with_null_issue
          [where rt = webhook_runtime and env = example_env
             and sdk = "example_sdk no_create_error exec_ok"
             and req = "webhook_request null_issue_body" and rawBody = null_issue_body
             and payload = "example_payload \<lparr> payload_issue := Null \<rparr>"
             and issues = Map.empty and w = 1000]
  by (simp add: webhook_request_fields webhook_request_signed webhook_parse example_env_def
      example_payload_def)



end
